theory Spec2Isabelle
  imports Main "HOL-Library.Product_Lexorder" "HOL-Library.Log_Nat"
begin

section \<open>Data model of the billing and account ledger engine\<close>

text \<open>
  The store is a relational database reached through a query client. Its tables are
  modelled as lists of rows in insertion order. Identifiers (uuid columns) are natural
  numbers and timestamps are milliseconds since the epoch. An amount column is
  \<open>numeric(10,2)\<close> or \<open>numeric(12,2)\<close>, a decimal with two places: the model counts
  it in hundredths, so that 2750.00 is \<open>pesos 2750 = 275000\<close> and 256.03 is 25603. The
  amount of a request is taken with two decimals as well.

  Every read and write of the store succeeds; the branches of the source that only react
  to a failed store call are therefore absent, while validation and not-found failures
  are values of type \<open>error\<close>. The identifiers passed to \<open>createInvoiceFromOrder\<close>,
  \<open>recordPayment\<close> and the route handlers are well-formed by their type, so the uuid
  checks of their input schemas have no branch; the statement builder takes the text and
  the dates it is called with, and its schema check is a branch.
\<close>

type_synonym uuid = nat
type_synonym money = int
type_synonym instant = int

abbreviation pesos :: "int \<Rightarrow> money" where
  "pesos n \<equiv> 100 * n"

subsection \<open>JavaScript numbers\<close>

text \<open>
  The server computes with JavaScript numbers, the binary64 floating-point values. A
  finite one is modelled by the rational it denotes; \<open>binary64\<close> rounds a rational to
  the nearest such value, ties to the even significand, with 53 significant bits and the
  least exponent of the subnormal range. Amounts stay far below the largest finite value
  (about \<open>1.8 * 10^308\<close>), so infinities and NaN do not arise and are not modelled.
  \<open>num_add\<close> and \<open>num_sub\<close> are the operators \<open>+\<close> and \<open>-\<close> on numbers.

  \<open>toNumber\<close> is the number the server gets for a stored amount (the helper
  \<open>toNumber\<close> of the handlers, \<open>Number(...)\<close> in the service): the binary64 value
  nearest to the decimal. \<open>numeric_2\<close> is what a \<open>numeric(10,2)\<close> column keeps of a
  number written to it: the number rounded to two decimals, halves away from zero.

  A number that is read and written back unchanged reaches the column as the decimal it
  came from (a column holds at most twelve digits, binary64 keeps fifteen), and a
  comparison between two numbers that were only read is decided as on their decimals;
  the model keeps such amounts as decimals. The ledger balances, which the source adds
  up as numbers and stores in a \<open>numeric(12,2)\<close> column, are kept as the decimal sums,
  the column's rounding removing an error that is far below half a hundredth. The totals
  of a statement, which the source adds up as numbers and returns, are modelled by the
  decimal sums as well. Where the source branches on a number it has computed (the
  allocation loop of \<open>recordPayment\<close>, the status tests of the route handlers), the
  model computes that number in binary64 as the source does.
\<close>

type_synonym number = rat

definition two_pow :: "int \<Rightarrow> rat" where
  "two_pow k = (if k \<ge> 0 then 2 ^ nat k else 1 / 2 ^ nat (- k))"

text \<open>For \<open>x > 0\<close>: the exponent \<open>e\<close> with \<open>2^e \<le> x < 2^(e+1)\<close>.\<close>

definition exponent_of :: "rat \<Rightarrow> int" where
  "exponent_of x =
     (let (p, q) = quotient_of x;
          d = bitlen p - bitlen q
      in if two_pow d \<le> x then d else d - 1)"

definition round_half_even :: "rat \<Rightarrow> int" where
  "round_half_even x =
     (let f = \<lfloor>x\<rfloor>;
          r = x - of_int f
      in if r < 1 / 2 then f
         else if r > 1 / 2 then f + 1
         else if even f then f else f + 1)"

definition binary64 :: "rat \<Rightarrow> number" where
  "binary64 x =
     (if x = 0 then 0
      else
        let a = \<bar>x\<bar>;
            e = exponent_of a;
            q = max (e - 52) (- 1074);
            m = round_half_even (a / two_pow q)
        in sgn x * of_int m * two_pow q)"

definition num_add :: "number \<Rightarrow> number \<Rightarrow> number" where
  "num_add x y = binary64 (x + y)"

definition num_sub :: "number \<Rightarrow> number \<Rightarrow> number" where
  "num_sub x y = binary64 (x - y)"

definition toNumber :: "money \<Rightarrow> number" where
  "toNumber c = binary64 (of_int c / 100)"

definition numeric_2 :: "number \<Rightarrow> money" where
  "numeric_2 x = (if x \<ge> 0 then \<lfloor>x * 100 + 1 / 2\<rfloor> else - \<lfloor>- x * 100 + 1 / 2\<rfloor>)"

subsection \<open>Tables\<close>

datatype work_type =
  PROTESIS | CORONA_ZIRCONIA | CORONA_A_PERNO | MODELO_IMPRESO | TERMINACION_1_A_5
  | TERMINACION_6_A_10 | REPARACION | PROVISORIO | GANCHO_LABRADO

datatype work_order_status = CREATED | IN_PROGRESS | DONE | DELIVERED

datatype invoice_status = PENDING | PAID | CANCELLED

datatype payment_status = PAYMENT_PENDING | COMPLETED | FAILED

record user_profile =
  up_id :: uuid
  up_name :: "string option"
  up_email :: "string option"

record work_order =
  wo_id :: uuid
  wo_dentistId :: "uuid option"
  wo_status :: work_order_status
  wo_workType :: "work_type option"
  wo_price :: "money option"
  wo_displayCode :: "string option"
  wo_patientName :: "string option"

record invoice =
  inv_id :: uuid
  inv_clientId :: uuid
  inv_workOrderId :: "uuid option"
  inv_amount :: money
  inv_currency :: string
  inv_dueAt :: instant
  inv_status :: invoice_status
  inv_createdAt :: instant

record payment =
  pay_id :: uuid
  pay_invoiceId :: uuid
  pay_provider :: string
  pay_providerRef :: string
  pay_amount :: money
  pay_status :: payment_status
  pay_createdAt :: instant

record account_entry =
  ae_id :: uuid
  ae_clientId :: uuid
  ae_invoiceId :: uuid
  ae_debit :: money
  ae_credit :: money
  ae_balanceAfter :: money
  ae_createdAt :: instant

record db =
  user_profiles :: "user_profile list"
  work_orders :: "work_order list"
  invoices :: "invoice list"
  payments :: "payment list"
  account_entries :: "account_entry list"

text \<open>
  What one call draws from outside: the successive readings of the clock
  (\<open>new Date()\<close> in the server, \<open>now()\<close> in the store) and the successive
  identifiers the store generates for inserted rows.
\<close>

record env =
  clock :: "nat \<Rightarrow> instant"
  gen_uuid :: "nat \<Rightarrow> uuid"

datatype error =
  OrderNotFound | BillingPartyMissing | OrderNotReady | DuplicateInvoice
  | AmountUndetermined | ClientNotFound | NonPositiveAmount | InvalidInput
  | InvoiceNotFound | PaymentNotFound | InvalidAmount

section \<open>Queries\<close>

text \<open>
  \<open>single\<close> is the client's \<open>.single()\<close> and \<open>.maybeSingle()\<close> on an unlimited
  query: the row when exactly one matches, no data otherwise. \<open>first_row\<close> is
  \<open>.limit(1).maybeSingle()\<close>. An \<open>order\<close> clause is a stable sort of the table
  order, so rows with equal keys keep their insertion order (the store leaves the order
  of ties open); a query without an \<open>order\<close> clause returns the table order.
\<close>

definition single :: "'a list \<Rightarrow> 'a option" where
  "single rows = (case rows of [r] \<Rightarrow> Some r | _ \<Rightarrow> None)"

definition first_row :: "'a list \<Rightarrow> 'a option" where
  "first_row rows = (case rows of [] \<Rightarrow> None | r # _ \<Rightarrow> Some r)"

definition order_asc :: "('a \<Rightarrow> 'k::linorder) \<Rightarrow> 'a list \<Rightarrow> 'a list" where
  "order_asc k rows = sort_key k rows"

definition order_desc :: "('a \<Rightarrow> int) \<Rightarrow> 'a list \<Rightarrow> 'a list" where
  "order_desc k rows = sort_key (\<lambda>r. - k r) rows"

section \<open>Pricing (pricing.ts, billing-service.ts)\<close>

fun WORK_TYPE_PRICES :: "work_type \<Rightarrow> money" where
  "WORK_TYPE_PRICES PROTESIS = pesos 2750"
| "WORK_TYPE_PRICES CORONA_ZIRCONIA = pesos 2990"
| "WORK_TYPE_PRICES CORONA_A_PERNO = pesos 3200"
| "WORK_TYPE_PRICES MODELO_IMPRESO = pesos 400"
| "WORK_TYPE_PRICES TERMINACION_1_A_5 = pesos 3350"
| "WORK_TYPE_PRICES TERMINACION_6_A_10 = pesos 200"
| "WORK_TYPE_PRICES REPARACION = pesos 1150"
| "WORK_TYPE_PRICES PROVISORIO = pesos 1780"
| "WORK_TYPE_PRICES GANCHO_LABRADO = pesos 1500"

definition priceForWorkType :: "work_type option \<Rightarrow> money" where
  "priceForWorkType workType =
     (case workType of None \<Rightarrow> 0 | Some t \<Rightarrow> WORK_TYPE_PRICES t)"

section \<open>Ledger entry recorder (billing-service.ts)\<close>

definition getLatestBalance :: "db \<Rightarrow> uuid \<Rightarrow> money" where
  "getLatestBalance s clientId =
     (case first_row (order_desc ae_createdAt
             (filter (\<lambda>e. ae_clientId e = clientId) (account_entries s))) of
        None \<Rightarrow> 0
      | Some e \<Rightarrow> ae_balanceAfter e)"

text \<open>
  \<open>createAccountEntry s newId now clientId invoiceId debit credit createdAt\<close>: the
  generated id and the clock reading used when no \<open>createdAt\<close> is given are passed in.
\<close>

definition createAccountEntry ::
  "db \<Rightarrow> uuid \<Rightarrow> instant \<Rightarrow> uuid \<Rightarrow> uuid \<Rightarrow> money \<Rightarrow> money \<Rightarrow> instant option
     \<Rightarrow> db \<times> account_entry" where
  "createAccountEntry s newId now clientId invoiceId debit credit createdAt =
     (let previousBalance = getLatestBalance s clientId;
          nextBalance = previousBalance + debit - credit;
          entry = \<lparr>ae_id = newId, ae_clientId = clientId, ae_invoiceId = invoiceId,
                   ae_debit = debit, ae_credit = credit, ae_balanceAfter = nextBalance,
                   ae_createdAt = (case createdAt of None \<Rightarrow> now | Some t \<Rightarrow> t)\<rparr>
      in (s\<lparr>account_entries := account_entries s @ [entry]\<rparr>, entry))"

section \<open>Balance recalculator (api/billing/invoices/[id].ts, api/billing/payments/[id].ts)\<close>

definition set_balanceAfter :: "uuid \<Rightarrow> money \<Rightarrow> account_entry list \<Rightarrow> account_entry list" where
  "set_balanceAfter i v tbl =
     map (\<lambda>x. if ae_id x = i then x\<lparr>ae_balanceAfter := v\<rparr> else x) tbl"

text \<open>The loop of \<open>recomputeBalances\<close>: one update by id per selected entry.\<close>

fun replay :: "money \<Rightarrow> account_entry list \<Rightarrow> account_entry list \<Rightarrow> account_entry list" where
  "replay running [] tbl = tbl"
| "replay running (entry # rest) tbl =
     (let running' = running + ae_debit entry - ae_credit entry
      in replay running' rest (set_balanceAfter (ae_id entry) running' tbl))"

definition client_ledger :: "uuid \<Rightarrow> db \<Rightarrow> account_entry list" where
  "client_ledger clientId s =
     order_asc (\<lambda>e. (ae_createdAt e, ae_id e))
       (filter (\<lambda>e. ae_clientId e = clientId) (account_entries s))"

definition recomputeBalances :: "uuid \<Rightarrow> db \<Rightarrow> db" where
  "recomputeBalances clientId s =
     s\<lparr>account_entries := replay 0 (client_ledger clientId s) (account_entries s)\<rparr>"

section \<open>Invoice generator (billing-service.ts)\<close>

text \<open>
  \<open>createInvoiceFromOrder\<close>. The order id is a well-formed uuid by its type. The
  insert draws the invoice's id (\<open>gen_uuid env 0\<close>); \<open>dueAt\<close> is the server's clock,
  \<open>createdAt\<close> the store's; the ledger entry takes the invoice's \<open>createdAt\<close>.
\<close>

definition stamp_price :: "uuid \<Rightarrow> money \<Rightarrow> work_order list \<Rightarrow> work_order list" where
  "stamp_price orderId amount tbl =
     map (\<lambda>w. if wo_id w = orderId then w\<lparr>wo_price := Some amount\<rparr> else w) tbl"

definition createInvoiceFromOrder :: "db \<Rightarrow> env \<Rightarrow> uuid \<Rightarrow> error + (db \<times> invoice)" where
  "createInvoiceFromOrder s env orderId =
     (case single (filter (\<lambda>w. wo_id w = orderId) (work_orders s)) of
        None \<Rightarrow> Inl OrderNotFound
      | Some order \<Rightarrow>
          (case wo_dentistId order of
             None \<Rightarrow> Inl BillingPartyMissing
           | Some billingClientId \<Rightarrow>
               if wo_status order \<noteq> DONE \<and> wo_status order \<noteq> DELIVERED then Inl OrderNotReady
               else
                 (case first_row (filter (\<lambda>i. inv_workOrderId i = Some (wo_id order)) (invoices s)) of
                    Some existingInvoice \<Rightarrow> Inl DuplicateInvoice
                  | None \<Rightarrow>
                      let amountFromWorkType = priceForWorkType (wo_workType order);
                          finalAmount =
                            (if amountFromWorkType > 0 then amountFromWorkType
                             else (case wo_price order of None \<Rightarrow> 0 | Some p \<Rightarrow> p))
                      in if finalAmount \<le> 0 then Inl AmountUndetermined
                         else
                           let invoice =
                                 \<lparr>inv_id = gen_uuid env 0, inv_clientId = billingClientId,
                                  inv_workOrderId = Some (wo_id order), inv_amount = finalAmount,
                                  inv_currency = ''ARS'', inv_dueAt = clock env 0,
                                  inv_status = PENDING, inv_createdAt = clock env 1\<rparr>;
                               s1 = s\<lparr>invoices := invoices s @ [invoice]\<rparr>;
                               s2 = (if wo_price order = None \<or> wo_price order = Some 0
                                     then s1\<lparr>work_orders :=
                                            stamp_price (wo_id order) finalAmount (work_orders s1)\<rparr>
                                     else s1);
                               s3 = fst (createAccountEntry s2 (gen_uuid env 1) (clock env 2)
                                      billingClientId (inv_id invoice) finalAmount 0
                                      (Some (inv_createdAt invoice)))
                           in Inr (s3, invoice))))"

section \<open>Payment allocator (billing-service.ts)\<close>

text \<open>The dictionary \<open>paymentsByInvoice\<close>, filled by the loop over the loaded payments.\<close>

definition paymentsByInvoice :: "payment list \<Rightarrow> (uuid \<rightharpoonup> number)" where
  "paymentsByInvoice ps =
     foldl (\<lambda>m p. m(pay_invoiceId p \<mapsto>
                      num_add (case m (pay_invoiceId p) of None \<Rightarrow> 0 | Some c \<Rightarrow> c)
                        (toNumber (pay_amount p))))
       Map.empty ps"

definition mark_paid :: "uuid \<Rightarrow> invoice list \<Rightarrow> invoice list" where
  "mark_paid i tbl = map (\<lambda>x. if inv_id x = i then x\<lparr>inv_status := PAID\<rparr> else x) tbl"

text \<open>
  The allocation loop over the loaded invoices. Its state is the store, the list
  \<open>createdPayments\<close>, \<open>firstInvoiceId\<close> and \<open>remaining\<close>. The k-th inserted payment
  takes the k-th generated id and, without a \<open>date\<close>, the k-th clock reading.
  \<open>remaining\<close>, \<open>paidAmount\<close>, \<open>outstandingAmount\<close>, \<open>applied\<close> and
  \<open>remainingAfter\<close> are numbers; the inserted row keeps \<open>applied\<close> with two decimals.
\<close>

fun allocate ::
  "env \<Rightarrow> instant option \<Rightarrow> string option \<Rightarrow> (uuid \<rightharpoonup> number) \<Rightarrow> invoice list \<Rightarrow> number
     \<Rightarrow> db \<Rightarrow> payment list \<Rightarrow> uuid option \<Rightarrow> db \<times> payment list \<times> uuid option" where
  "allocate env date note paid [] remaining s createdPayments firstInvoiceId =
     (s, createdPayments, firstInvoiceId)"
| "allocate env date note paid (invoice # rest) remaining s createdPayments firstInvoiceId =
     (if remaining \<le> 0 then (s, createdPayments, firstInvoiceId)
      else
        let invoiceAmount = toNumber (inv_amount invoice);
            paidAmount = (case paid (inv_id invoice) of None \<Rightarrow> 0 | Some v \<Rightarrow> v);
            outstandingAmount = num_sub invoiceAmount paidAmount
        in if outstandingAmount \<le> 0
           then allocate env date note paid rest remaining s createdPayments firstInvoiceId
           else
             let applied = (if outstandingAmount \<ge> remaining then remaining else outstandingAmount);
                 k = length createdPayments;
                 payment =
                   \<lparr>pay_id = gen_uuid env k, pay_invoiceId = inv_id invoice,
                    pay_provider = ''MANUAL'',
                    pay_providerRef = (case note of None \<Rightarrow> [] | Some n \<Rightarrow> n),
                    pay_amount = numeric_2 applied, pay_status = COMPLETED,
                    pay_createdAt = (case date of None \<Rightarrow> clock env k | Some d \<Rightarrow> d)\<rparr>;
                 s1 = s\<lparr>payments := payments s @ [payment]\<rparr>;
                 firstInvoiceId' =
                   (case firstInvoiceId of None \<Rightarrow> Some (inv_id invoice) | Some f \<Rightarrow> Some f);
                 remainingAfter = num_sub outstandingAmount applied;
                 s2 = (if remainingAfter \<le> 0
                       then s1\<lparr>invoices := mark_paid (inv_id invoice) (invoices s1)\<rparr>
                       else s1)
             in allocate env date note paid rest (num_sub remaining applied) s2
                  (createdPayments @ [payment]) firstInvoiceId')"

definition pending_invoices :: "db \<Rightarrow> uuid \<Rightarrow> invoice list" where
  "pending_invoices s clientId =
     order_asc inv_createdAt
       (filter (\<lambda>i. inv_clientId i = clientId \<and> inv_status i = PENDING) (invoices s))"

definition recordPayment ::
  "db \<Rightarrow> env \<Rightarrow> uuid \<Rightarrow> money \<Rightarrow> instant option \<Rightarrow> string option
     \<Rightarrow> error + (db \<times> payment list)" where
  "recordPayment s env clientId amount date note =
     (if (case note of None \<Rightarrow> False | Some n \<Rightarrow> length n > 200) then Inl InvalidInput
      else
        (case single (filter (\<lambda>u. up_id u = clientId) (user_profiles s)) of
           None \<Rightarrow> Inl ClientNotFound
         | Some client \<Rightarrow>
             if amount \<le> 0 then Inl NonPositiveAmount
             else
               let invs = pending_invoices s clientId;
                   invoiceIds = map inv_id invs;
                   pays = (if invoiceIds = [] then []
                           else filter (\<lambda>p. pay_invoiceId p \<in> set invoiceIds) (payments s));
                   paid = paymentsByInvoice pays;
                   (s1, createdPayments, firstInvoiceId) =
                      allocate env date note paid invs (toNumber amount) s [] None;
                   firstInvoiceId' =
                     (case firstInvoiceId of
                        Some f \<Rightarrow> Some f
                      | None \<Rightarrow>
                          (case first_row (order_desc inv_createdAt
                                  (filter (\<lambda>i. inv_clientId i = clientId) (invoices s1))) of
                             None \<Rightarrow> None
                           | Some anyInvoice \<Rightarrow> Some (inv_id anyInvoice)));
                   n = length createdPayments;
                   s2 = (case firstInvoiceId' of
                           None \<Rightarrow> s1
                         | Some f \<Rightarrow>
                             fst (createAccountEntry s1 (gen_uuid env n) (clock env n) clientId f 0
                                    amount
                                    (Some (case date of None \<Rightarrow> clock env n | Some d \<Rightarrow> d))))
               in Inr (s2, createdPayments)))"

section \<open>Invoice mutator (api/billing/invoices/[id].ts, api/billing/payments/[id].ts)\<close>

text \<open>
  The route handlers after their authorisation and id-presence checks, under the names
  of the operations they implement: \<open>editInvoiceAmount\<close> is the PATCH handler and
  \<open>deleteInvoice\<close> the DELETE handler of an invoice, \<open>deletePayment\<close> the DELETE
  handler of a payment. \<open>totalPaid\<close> is the \<open>reduce\<close> over the loaded payment rows,
  a sum of numbers from 0 in the order of the rows.
\<close>

definition totalPaid :: "payment list \<Rightarrow> number" where
  "totalPaid rows = foldl (\<lambda>sum row. num_add sum (toNumber (pay_amount row))) 0 rows"

definition set_status :: "uuid \<Rightarrow> invoice_status \<Rightarrow> invoice list \<Rightarrow> invoice list" where
  "set_status i st tbl = map (\<lambda>x. if inv_id x = i then x\<lparr>inv_status := st\<rparr> else x) tbl"

definition set_amount :: "uuid \<Rightarrow> money \<Rightarrow> invoice list \<Rightarrow> invoice list" where
  "set_amount i a tbl = map (\<lambda>x. if inv_id x = i then x\<lparr>inv_amount := a\<rparr> else x) tbl"

definition set_debit :: "uuid \<Rightarrow> money \<Rightarrow> account_entry list \<Rightarrow> account_entry list" where
  "set_debit i a tbl = map (\<lambda>x. if ae_id x = i then x\<lparr>ae_debit := a\<rparr> else x) tbl"

text \<open>The entry the PATCH handler takes for the invoice's debit.\<close>

definition find_debit_entry :: "db \<Rightarrow> invoice \<Rightarrow> money \<Rightarrow> account_entry option" where
  "find_debit_entry s invoice oldAmount =
     (let createdAt = inv_createdAt invoice;
          start = createdAt - 5000;
          end = createdAt + 5000;
          accountEntry =
            first_row (order_asc ae_createdAt
              (filter (\<lambda>e. ae_clientId e = inv_clientId invoice \<and> ae_invoiceId e = inv_id invoice
                            \<and> ae_debit e = oldAmount \<and> start \<le> ae_createdAt e
                            \<and> ae_createdAt e \<le> end)
                 (account_entries s)))
      in case accountEntry of
           Some e \<Rightarrow> Some e
         | None \<Rightarrow>
             first_row (order_asc ae_createdAt
               (filter (\<lambda>e. ae_clientId e = inv_clientId invoice \<and> ae_invoiceId e = inv_id invoice
                             \<and> ae_debit e > 0)
                  (account_entries s))))"

definition editInvoiceAmount :: "db \<Rightarrow> uuid \<Rightarrow> money \<Rightarrow> error + db" where
  "editInvoiceAmount s invoiceId amountValue =
     (if amountValue \<le> 0 then Inl InvalidAmount
      else
        (case single (filter (\<lambda>i. inv_id i = invoiceId) (invoices s)) of
           None \<Rightarrow> Inl InvoiceNotFound
         | Some invoice \<Rightarrow>
             let oldAmount = inv_amount invoice;
                 s3 = (if oldAmount \<noteq> amountValue
                       then
                         let s1 = s\<lparr>invoices := set_amount invoiceId amountValue (invoices s)\<rparr>;
                             s2 = (case find_debit_entry s1 invoice oldAmount of
                                     None \<Rightarrow> s1
                                   | Some accountEntry \<Rightarrow>
                                       s1\<lparr>account_entries :=
                                            set_debit (ae_id accountEntry) amountValue
                                              (account_entries s1)\<rparr>)
                         in recomputeBalances (inv_clientId invoice) s2
                       else s);
                 paid = totalPaid (filter (\<lambda>p. pay_invoiceId p = invoiceId) (payments s3));
                 nextStatus = (if paid \<ge> toNumber amountValue then PAID else PENDING)
             in Inr (s3\<lparr>invoices := set_status invoiceId nextStatus (invoices s3)\<rparr>)))"

definition deleteInvoice :: "db \<Rightarrow> uuid \<Rightarrow> error + db" where
  "deleteInvoice s invoiceId =
     (case single (filter (\<lambda>i. inv_id i = invoiceId) (invoices s)) of
        None \<Rightarrow> Inl InvoiceNotFound
      | Some invoice \<Rightarrow>
          let s1 = s\<lparr>payments := filter (\<lambda>p. pay_invoiceId p \<noteq> invoiceId) (payments s)\<rparr>;
              s2 = s1\<lparr>account_entries :=
                        filter (\<lambda>e. ae_invoiceId e \<noteq> invoiceId) (account_entries s1)\<rparr>;
              s3 = s2\<lparr>invoices := filter (\<lambda>i. inv_id i \<noteq> invoiceId) (invoices s2)\<rparr>
          in Inr (recomputeBalances (inv_clientId invoice) s3))"



section \<open>Statement builder (billing-service.ts)\<close>

text \<open>
  The stored text of a work type is its enum label. \<open>formatWorkTypeLabel\<close> splits
  it at underscores and lower-cases all but the first character of each segment; only
  the ASCII letters are lower-cased here, which covers every label.
\<close>

fun work_type_label :: "work_type \<Rightarrow> string" where
  "work_type_label PROTESIS = ''PROTESIS''"
| "work_type_label CORONA_ZIRCONIA = ''CORONA_ZIRCONIA''"
| "work_type_label CORONA_A_PERNO = ''CORONA_A_PERNO''"
| "work_type_label MODELO_IMPRESO = ''MODELO_IMPRESO''"
| "work_type_label TERMINACION_1_A_5 = ''TERMINACION_1_A_5''"
| "work_type_label TERMINACION_6_A_10 = ''TERMINACION_6_A_10''"
| "work_type_label REPARACION = ''REPARACION''"
| "work_type_label PROVISORIO = ''PROVISORIO''"
| "work_type_label GANCHO_LABRADO = ''GANCHO_LABRADO''"

fun split_on :: "char \<Rightarrow> string \<Rightarrow> string list" where
  "split_on c [] = [[]]"
| "split_on c (x # xs) =
     (if x = c then [] # split_on c xs
      else (case split_on c xs of [] \<Rightarrow> [[x]] | seg # segs \<Rightarrow> (x # seg) # segs))"

fun join_with :: "string \<Rightarrow> string list \<Rightarrow> string" where
  "join_with sep [] = []"
| "join_with sep [x] = x"
| "join_with sep (x # y # ys) = x @ sep @ join_with sep (y # ys)"

definition toLowerCase :: "char \<Rightarrow> char" where
  "toLowerCase c =
     (if (65::nat) \<le> of_char c \<and> of_char c \<le> (90::nat) then char_of (of_char c + (32::nat)) else c)"

definition formatWorkTypeLabel :: "string option \<Rightarrow> string" where
  "formatWorkTypeLabel v =
     (case v of
        None \<Rightarrow> ''Orden de trabajo''
      | Some txt \<Rightarrow>
          if txt = [] then ''Orden de trabajo''
          else join_with '' ''
                 (map (\<lambda>segment. case segment of [] \<Rightarrow> segment
                                   | c # cs \<Rightarrow> c # map toLowerCase cs)
                    (split_on (CHR ''_'') txt)))"

datatype row_kind = MOVIMIENTO | FACTURA | PAGO

text \<open>\<open>compNro\<close> is a display code, an invoice id, or the empty text.\<close>

datatype comp_ref = CompText string | CompInvoice uuid

record statement_row =
  r_fecha :: instant
  r_tipo :: row_kind
  r_compNro :: comp_ref
  r_ordenId :: "uuid option"
  r_detalle :: string
  r_paciente :: string
  r_facturas :: money
  r_entregas :: money
  r_saldoAcumulado :: money
  r_paymentId :: "uuid option"
  r_invoiceId :: "uuid option"

record statement_totals =
  t_facturas :: money
  t_entregas :: money
  t_saldo :: money

record statement =
  st_clientId :: uuid
  st_clientName :: string
  st_rows :: "statement_row list"
  st_totals :: statement_totals

text \<open>The callback of \<open>entries.map\<close>, without its two running totals.\<close>

definition statement_row_of ::
  "(uuid \<rightharpoonup> invoice) \<Rightarrow> (uuid \<rightharpoonup> work_order) \<Rightarrow> payment list \<Rightarrow> account_entry
     \<Rightarrow> statement_row" where
  "statement_row_of invoicesById workOrdersById pays entry =
     (let debit = ae_debit entry;
          credit = ae_credit entry;
          balance = ae_balanceAfter entry;
          invoice = invoicesById (ae_invoiceId entry);
          order = (case invoice of
                     None \<Rightarrow> None
                   | Some i \<Rightarrow> (case inv_workOrderId i of None \<Rightarrow> None | Some w \<Rightarrow> workOrdersById w));
          invoiceRef = (case invoice of None \<Rightarrow> CompText [] | Some i \<Rightarrow> CompInvoice (inv_id i));
          paymentMatch =
            (if \<not> debit > 0 \<and> credit > 0
             then List.find (\<lambda>p. pay_amount p = credit
                                \<and> \<bar>pay_createdAt p - ae_createdAt entry\<bar> < 5000) pays
             else None);
          tipo = (if debit > 0 then FACTURA else if credit > 0 then PAGO else MOVIMIENTO);
          compNro =
            (if debit > 0
             then (case order of
                     None \<Rightarrow> invoiceRef
                   | Some w \<Rightarrow> (case wo_displayCode w of None \<Rightarrow> invoiceRef | Some c \<Rightarrow> CompText c))
             else invoiceRef);
          detalle =
            (if debit > 0
             then (case order of
                     None \<Rightarrow> ''Factura emitida''
                   | Some w \<Rightarrow>
                       (case wo_workType w of
                          None \<Rightarrow> ''Factura emitida''
                        | Some t \<Rightarrow> formatWorkTypeLabel (Some (work_type_label t))))
             else if credit > 0
             then (case paymentMatch of
                     None \<Rightarrow> ''Pago registrado''
                   | Some p \<Rightarrow> if pay_providerRef p \<noteq> [] then pay_providerRef p
                              else ''Pago registrado'')
             else ''Movimiento de cuenta'');
          patientName =
            (if debit > 0
             then (case order of
                     None \<Rightarrow> ''-''
                   | Some w \<Rightarrow> (case wo_patientName w of None \<Rightarrow> ''-'' | Some n \<Rightarrow> n))
             else ''-'')
      in \<lparr>r_fecha = ae_createdAt entry, r_tipo = tipo, r_compNro = compNro,
          r_ordenId = (case invoice of None \<Rightarrow> None | Some i \<Rightarrow> inv_workOrderId i),
          r_detalle = detalle, r_paciente = patientName, r_facturas = debit,
          r_entregas = credit, r_saldoAcumulado = balance,
          r_paymentId = (if tipo = PAGO
                         then (case paymentMatch of None \<Rightarrow> None | Some p \<Rightarrow> Some (pay_id p))
                         else None),
          r_invoiceId = (case invoice of None \<Rightarrow> None | Some i \<Rightarrow> Some (inv_id i))\<rparr>)"

text \<open>
  \<open>setHours(23, 59, 59, 999)\<close> works in the server's time zone; \<open>tz\<close> is its offset
  from UTC in milliseconds.
\<close>

definition endOfDay :: "int \<Rightarrow> instant \<Rightarrow> instant" where
  "endOfDay tz t = ((t + tz) div 86400000) * 86400000 + 86399999 - tz"

definition statement_entries :: "db \<Rightarrow> int \<Rightarrow> uuid \<Rightarrow> instant option \<Rightarrow> instant option
    \<Rightarrow> account_entry list" where
  "statement_entries s tz clientId dateFrom dateTo =
     (let q0 = filter (\<lambda>e. ae_clientId e = clientId) (account_entries s);
          q1 = (case dateFrom of None \<Rightarrow> q0 | Some f \<Rightarrow> filter (\<lambda>e. f \<le> ae_createdAt e) q0);
          q2 = (case dateTo of None \<Rightarrow> q1
                | Some t \<Rightarrow> filter (\<lambda>e. ae_createdAt e \<le> endOfDay tz t) q1)
      in order_asc ae_createdAt q2)"

text \<open>
  The arguments of the builder as it receives them: a text that is a uuid or is not, and
  dates that may be invalid (a \<open>Date\<close> whose time value is NaN). \<open>statementWithDateSchema\<close>
  is the \<open>parse\<close> of the schema of that name, which throws when the text is not a uuid or
  a date is invalid.
\<close>

datatype id_text = Uuid uuid | NotUuid string

datatype js_date = Date instant | InvalidDate

fun coerce_date :: "js_date option \<Rightarrow> error + instant option" where
  "coerce_date None = Inr None"
| "coerce_date (Some (Date t)) = Inr (Some t)"
| "coerce_date (Some InvalidDate) = Inl InvalidInput"

definition statementWithDateSchema ::
  "id_text \<Rightarrow> js_date option \<Rightarrow> js_date option
     \<Rightarrow> error + (uuid \<times> instant option \<times> instant option)" where
  "statementWithDateSchema clientId dateFrom dateTo =
     (case clientId of
        NotUuid txt \<Rightarrow> Inl InvalidInput
      | Uuid c \<Rightarrow>
          (case coerce_date dateFrom of
             Inl e \<Rightarrow> Inl e
           | Inr f \<Rightarrow>
               (case coerce_date dateTo of
                  Inl e \<Rightarrow> Inl e
                | Inr t \<Rightarrow> Inr (c, f, t))))"

text \<open>
  The dictionaries built with \<open>new Map\<close>: a later row with the same key replaces an
  earlier one. The list of distinct invoice ids is only tested for emptiness and
  membership, so its order is immaterial.
\<close>

definition getStatementByClient ::
  "db \<Rightarrow> int \<Rightarrow> id_text \<Rightarrow> js_date option \<Rightarrow> js_date option \<Rightarrow> error + statement" where
  "getStatementByClient s tz clientId dateFrom dateTo =
     (case statementWithDateSchema clientId dateFrom dateTo of
        Inl e \<Rightarrow> Inl e
      | Inr (validatedClientId, from, to) \<Rightarrow>
     (case single (filter (\<lambda>u. up_id u = validatedClientId) (user_profiles s)) of
        None \<Rightarrow> Inl ClientNotFound
      | Some client \<Rightarrow>
          let entries = statement_entries s tz validatedClientId from to;
              invoiceIds = remdups (map ae_invoiceId entries);
              invs = (if invoiceIds = [] then []
                      else filter (\<lambda>i. inv_id i \<in> set invoiceIds) (invoices s));
              invoicesById = map_of (rev (map (\<lambda>i. (inv_id i, i)) invs));
              workOrderIds = remdups (List.map_filter inv_workOrderId invs);
              workOrders = (if workOrderIds = [] then []
                            else filter (\<lambda>w. wo_id w \<in> set workOrderIds) (work_orders s));
              workOrdersById = map_of (rev (map (\<lambda>w. (wo_id w, w)) workOrders));
              pays = (if invoiceIds = [] then []
                      else filter (\<lambda>p. pay_invoiceId p \<in> set invoiceIds) (payments s));
              (facturasTotal, entregasTotal, rows) =
                 foldl (\<lambda>(ft, et, rs) entry.
                          (ft + ae_debit entry, et + ae_credit entry,
                           rs @ [statement_row_of invoicesById workOrdersById pays entry]))
                   (0, 0, []) entries
          in Inr \<lparr>st_clientId = up_id client,
                  st_clientName =
                    (case up_name client of
                       Some n \<Rightarrow> n
                     | None \<Rightarrow> (case up_email client of Some m \<Rightarrow> m | None \<Rightarrow> ''Cliente'')),
                  st_rows = rows,
                  st_totals = \<lparr>t_facturas = facturasTotal, t_entregas = entregasTotal,
                               t_saldo = facturasTotal - entregasTotal\<rparr>\<rparr>))"

section \<open>Specification vocabulary and example stores\<close>

text \<open>
  The predicates and functions in which the properties below are stated, the devices
  their proofs use, and the concrete stores the scenarios run on. None of them is part
  of the program.
\<close>

subsection \<open>The running-balance invariant and the recalculator\<close>

text \<open>
  The ledger invariant of the data model: over a client's entries ordered by
  \<open>(createdAt, id)\<close>, each stored balance is the previous one plus debit minus credit,
  starting from 0.
\<close>

fun chain_from :: "money \<Rightarrow> account_entry list \<Rightarrow> bool" where
  "chain_from prev [] = True"
| "chain_from prev (e # es) =
     (ae_balanceAfter e = prev + ae_debit e - ae_credit e \<and> chain_from (ae_balanceAfter e) es)"

definition ledger_order :: "uuid \<Rightarrow> db \<Rightarrow> account_entry list" where
  "ledger_order clientId s =
     sort_key (\<lambda>e. (ae_createdAt e, ae_id e))
       (filter (\<lambda>e. ae_clientId e = clientId) (account_entries s))"

definition ledger_invariant :: "uuid \<Rightarrow> db \<Rightarrow> bool" where
  "ledger_invariant clientId s = chain_from 0 (ledger_order clientId s)"

text \<open>
  Proof device: \<open>assigned r es i\<close> is the last balance the replay of \<open>es\<close> from \<open>r\<close>
  writes to rows with id \<open>i\<close>, and \<open>rebalance\<close> is the replay's effect on one row.
\<close>

fun assigned :: "money \<Rightarrow> account_entry list \<Rightarrow> uuid \<Rightarrow> money option" where
  "assigned running [] i = None"
| "assigned running (entry # rest) i =
     (let running' = running + ae_debit entry - ae_credit entry
      in case assigned running' rest i of
           Some v \<Rightarrow> Some v
         | None \<Rightarrow> if ae_id entry = i then Some running' else None)"

definition rebalance :: "money \<Rightarrow> account_entry list \<Rightarrow> account_entry \<Rightarrow> account_entry" where
  "rebalance r es x =
     (case assigned r es (ae_id x) of None \<Rightarrow> x | Some v \<Rightarrow> x\<lparr>ae_balanceAfter := v\<rparr>)"

definition ledger_example :: db where
  "ledger_example =
     \<lparr>user_profiles = [], work_orders = [], invoices = [], payments = [],
      account_entries =
        [\<lparr>ae_id = 3, ae_clientId = 1, ae_invoiceId = 7, ae_debit = 0, ae_credit = 40,
          ae_balanceAfter = 60, ae_createdAt = 2000\<rparr>,
         \<lparr>ae_id = 5, ae_clientId = 2, ae_invoiceId = 8, ae_debit = 10, ae_credit = 0,
          ae_balanceAfter = 10, ae_createdAt = 1500\<rparr>,
         \<lparr>ae_id = 2, ae_clientId = 1, ae_invoiceId = 7, ae_debit = 100, ae_credit = 0,
          ae_balanceAfter = 17, ae_createdAt = 1000\<rparr>,
         \<lparr>ae_id = 1, ae_clientId = 1, ae_invoiceId = 9, ae_debit = 25, ae_credit = 0,
          ae_balanceAfter = 0, ae_createdAt = 1000\<rparr>]\<rparr>"

subsection \<open>Invoice generation\<close>

text \<open>The example store of the scenarios: one client, one finished order of type
  PROTESIS without a stamped price, and nothing billed yet.\<close>

definition scenario_db :: db where
  "scenario_db =
     \<lparr>user_profiles = [\<lparr>up_id = 1, up_name = Some ''Ana'', up_email = None\<rparr>],
      work_orders =
        [\<lparr>wo_id = 10, wo_dentistId = Some 1, wo_status = DONE, wo_workType = Some PROTESIS,
          wo_price = None, wo_displayCode = Some ''OT-1'', wo_patientName = Some ''Luis''\<rparr>],
      invoices = [], payments = [], account_entries = []\<rparr>"

definition scenario_env :: "nat \<Rightarrow> env" where
  "scenario_env n = \<lparr>clock = (\<lambda>k. 1000 * int n + int k), gen_uuid = (\<lambda>k. 100 * n + k)\<rparr>"

subsection \<open>Payment allocation\<close>

text \<open>
  The allocation procedure in the words of the specification, carried out on numbers,
  over the invoices' ids and outstanding amounts in order: skip an invoice with nothing
  outstanding, otherwise allocate the smaller of outstanding and remaining, and stop
  once nothing remains. An element is (invoice id, outstanding, allocated).
\<close>

fun allocation_plan :: "number \<Rightarrow> (uuid \<times> number) list \<Rightarrow> (uuid \<times> number \<times> number) list" where
  "allocation_plan remaining [] = []"
| "allocation_plan remaining ((i, outstanding) # rest) =
     (if remaining \<le> 0 then []
      else if outstanding \<le> 0 then allocation_plan remaining rest
      else (i, outstanding, min outstanding remaining)
             # allocation_plan (num_sub remaining (min outstanding remaining)) rest)"

text \<open>
  The sum of the payments recorded against an invoice: \<open>paid_total\<close> as the decimal
  sum, \<open>paid_number\<close> as the server adds it up, a sum of numbers from 0 in the order of
  the rows.
\<close>

definition paid_total :: "db \<Rightarrow> uuid \<Rightarrow> money" where
  "paid_total s i = sum_list (map pay_amount (filter (\<lambda>p. pay_invoiceId p = i) (payments s)))"

definition paid_number :: "db \<Rightarrow> uuid \<Rightarrow> number" where
  "paid_number s i =
     foldl num_add 0 (map (\<lambda>p. toNumber (pay_amount p))
       (filter (\<lambda>p. pay_invoiceId p = i) (payments s)))"

definition outstanding_of :: "(uuid \<rightharpoonup> number) \<Rightarrow> invoice \<Rightarrow> number" where
  "outstanding_of paid invoice =
     num_sub (toNumber (inv_amount invoice))
       (case paid (inv_id invoice) of None \<Rightarrow> 0 | Some v \<Rightarrow> v)"

text \<open>The invoices of a plan whose allocation leaves nothing of their outstanding amount.\<close>

definition settled :: "(uuid \<times> number \<times> number) list \<Rightarrow> uuid set" where
  "settled plan = {i. \<exists>out a. (i, out, a) \<in> set plan \<and> num_sub out a \<le> 0}"

definition mark_all_paid :: "uuid set \<Rightarrow> invoice list \<Rightarrow> invoice list" where
  "mark_all_paid ids tbl = map (\<lambda>x. if inv_id x \<in> ids then x\<lparr>inv_status := PAID\<rparr> else x) tbl"

text \<open>The payment rows inserted for a plan, the first taking the k-th generated id.\<close>

fun plan_rows ::
  "env \<Rightarrow> instant option \<Rightarrow> string option \<Rightarrow> nat \<Rightarrow> (uuid \<times> number \<times> number) list
     \<Rightarrow> payment list" where
  "plan_rows env date note k [] = []"
| "plan_rows env date note k ((i, out, a) # rest) =
     \<lparr>pay_id = gen_uuid env k, pay_invoiceId = i, pay_provider = ''MANUAL'',
      pay_providerRef = (case note of None \<Rightarrow> [] | Some n \<Rightarrow> n),
      pay_amount = numeric_2 a, pay_status = COMPLETED,
      pay_createdAt = (case date of None \<Rightarrow> clock env k | Some d \<Rightarrow> d)\<rparr>
     # plan_rows env date note (Suc k) rest"

text \<open>The plan \<open>recordPayment\<close> follows: over the client's PENDING invoices, oldest first.\<close>

definition payment_plan :: "db \<Rightarrow> uuid \<Rightarrow> money \<Rightarrow> (uuid \<times> number \<times> number) list" where
  "payment_plan s clientId amount =
     allocation_plan (toNumber amount)
       (map (\<lambda>i. (inv_id i, num_sub (toNumber (inv_amount i)) (paid_number s (inv_id i))))
          (pending_invoices s clientId))"

text \<open>
  A client with two unpaid invoices: invoice 7 of 100, the older, and invoice 8 of 50.
\<close>

definition allocation_example :: db where
  "allocation_example =
     \<lparr>user_profiles = [\<lparr>up_id = 1, up_name = Some ''Ana'', up_email = None\<rparr>],
      work_orders = [],
      invoices =
        [\<lparr>inv_id = 8, inv_clientId = 1, inv_workOrderId = None, inv_amount = pesos 50,
          inv_currency = ''ARS'', inv_dueAt = 2000, inv_status = PENDING, inv_createdAt = 2000\<rparr>,
         \<lparr>inv_id = 7, inv_clientId = 1, inv_workOrderId = None, inv_amount = pesos 100,
          inv_currency = ''ARS'', inv_dueAt = 1000, inv_status = PENDING, inv_createdAt = 1000\<rparr>],
      payments = [],
      account_entries =
        [\<lparr>ae_id = 70, ae_clientId = 1, ae_invoiceId = 7, ae_debit = pesos 100, ae_credit = 0,
          ae_balanceAfter = pesos 100, ae_createdAt = 1000\<rparr>,
         \<lparr>ae_id = 80, ae_clientId = 1, ae_invoiceId = 8, ae_debit = pesos 50, ae_credit = 0,
          ae_balanceAfter = pesos 150, ae_createdAt = 2000\<rparr>]\<rparr>"

text \<open>
  The store after Scenario 1 and a payment of 256.03: the invoice of 2750.00 is left with
  2493.97 outstanding.
\<close>

definition partly_paid_example :: db where
  "partly_paid_example =
     \<lparr>user_profiles = [\<lparr>up_id = 1, up_name = Some ''Ana'', up_email = None\<rparr>],
      work_orders =
        [\<lparr>wo_id = 10, wo_dentistId = Some 1, wo_status = DONE, wo_workType = Some PROTESIS,
          wo_price = Some (pesos 2750), wo_displayCode = Some ''OT-1'', wo_patientName = Some ''Luis''\<rparr>],
      invoices =
        [\<lparr>inv_id = 100, inv_clientId = 1, inv_workOrderId = Some 10, inv_amount = pesos 2750,
          inv_currency = ''ARS'', inv_dueAt = 1000, inv_status = PENDING, inv_createdAt = 1001\<rparr>],
      payments =
        [\<lparr>pay_id = 200, pay_invoiceId = 100, pay_provider = ''MANUAL'', pay_providerRef = [],
          pay_amount = 25603, pay_status = COMPLETED, pay_createdAt = 2000\<rparr>],
      account_entries =
        [\<lparr>ae_id = 101, ae_clientId = 1, ae_invoiceId = 100, ae_debit = pesos 2750, ae_credit = 0,
          ae_balanceAfter = pesos 2750, ae_createdAt = 1001\<rparr>,
         \<lparr>ae_id = 201, ae_clientId = 1, ae_invoiceId = 100, ae_debit = 0, ae_credit = 25603,
          ae_balanceAfter = 249397, ae_createdAt = 2001\<rparr>]\<rparr>"

subsection \<open>Deleting a payment\<close>


text \<open>The store after Scenario 1 and Scenario 2: one invoice of 2750, paid in full.\<close>

definition paid_example :: db where
  "paid_example =
     \<lparr>user_profiles = [\<lparr>up_id = 1, up_name = Some ''Ana'', up_email = None\<rparr>],
      work_orders =
        [\<lparr>wo_id = 10, wo_dentistId = Some 1, wo_status = DONE, wo_workType = Some PROTESIS,
          wo_price = Some (pesos 2750), wo_displayCode = Some ''OT-1'', wo_patientName = Some ''Luis''\<rparr>],
      invoices =
        [\<lparr>inv_id = 100, inv_clientId = 1, inv_workOrderId = Some 10, inv_amount = pesos 2750,
          inv_currency = ''ARS'', inv_dueAt = 1000, inv_status = PAID, inv_createdAt = 1001\<rparr>],
      payments =
        [\<lparr>pay_id = 200, pay_invoiceId = 100, pay_provider = ''MANUAL'', pay_providerRef = [],
          pay_amount = pesos 2750, pay_status = COMPLETED, pay_createdAt = 2000\<rparr>],
      account_entries =
        [\<lparr>ae_id = 101, ae_clientId = 1, ae_invoiceId = 100, ae_debit = pesos 2750, ae_credit = 0,
          ae_balanceAfter = pesos 2750, ae_createdAt = 1001\<rparr>,
         \<lparr>ae_id = 201, ae_clientId = 1, ae_invoiceId = 100, ae_debit = 0, ae_credit = pesos 2750,
          ae_balanceAfter = 0, ae_createdAt = 2001\<rparr>]\<rparr>"

text \<open>The store after Scenario 1, a payment of 1000 and a payment of 1750.\<close>

definition two_payments_example :: db where
  "two_payments_example =
     \<lparr>user_profiles = [\<lparr>up_id = 1, up_name = Some ''Ana'', up_email = None\<rparr>],
      work_orders =
        [\<lparr>wo_id = 10, wo_dentistId = Some 1, wo_status = DONE, wo_workType = Some PROTESIS,
          wo_price = Some (pesos 2750), wo_displayCode = Some ''OT-1'', wo_patientName = Some ''Luis''\<rparr>],
      invoices =
        [\<lparr>inv_id = 100, inv_clientId = 1, inv_workOrderId = Some 10, inv_amount = pesos 2750,
          inv_currency = ''ARS'', inv_dueAt = 1000, inv_status = PAID, inv_createdAt = 1001\<rparr>],
      payments =
        [\<lparr>pay_id = 200, pay_invoiceId = 100, pay_provider = ''MANUAL'', pay_providerRef = [],
          pay_amount = pesos 1000, pay_status = COMPLETED, pay_createdAt = 2000\<rparr>,
         \<lparr>pay_id = 300, pay_invoiceId = 100, pay_provider = ''MANUAL'', pay_providerRef = [],
          pay_amount = pesos 1750, pay_status = COMPLETED, pay_createdAt = 3000\<rparr>],
      account_entries =
        [\<lparr>ae_id = 101, ae_clientId = 1, ae_invoiceId = 100, ae_debit = pesos 2750, ae_credit = 0,
          ae_balanceAfter = pesos 2750, ae_createdAt = 1001\<rparr>,
         \<lparr>ae_id = 201, ae_clientId = 1, ae_invoiceId = 100, ae_debit = 0, ae_credit = pesos 1000,
          ae_balanceAfter = pesos 1750, ae_createdAt = 2001\<rparr>,
         \<lparr>ae_id = 301, ae_clientId = 1, ae_invoiceId = 100, ae_debit = 0, ae_credit = pesos 1750,
          ae_balanceAfter = 0, ae_createdAt = 3001\<rparr>]\<rparr>"

text \<open>
  The store after Scenario 1 and payments of 1.12, 2219.95 and 528.93, which add up to
  2750.00; and the store after one more payment, of 10.00, whose row holds 0.00.
\<close>

definition three_payments_example :: db where
  "three_payments_example =
     \<lparr>user_profiles = [\<lparr>up_id = 1, up_name = Some ''Ana'', up_email = None\<rparr>],
      work_orders =
        [\<lparr>wo_id = 10, wo_dentistId = Some 1, wo_status = DONE, wo_workType = Some PROTESIS,
          wo_price = Some (pesos 2750), wo_displayCode = Some ''OT-1'', wo_patientName = Some ''Luis''\<rparr>],
      invoices =
        [\<lparr>inv_id = 100, inv_clientId = 1, inv_workOrderId = Some 10, inv_amount = pesos 2750,
          inv_currency = ''ARS'', inv_dueAt = 1000, inv_status = PENDING, inv_createdAt = 1001\<rparr>],
      payments =
        [\<lparr>pay_id = 200, pay_invoiceId = 100, pay_provider = ''MANUAL'', pay_providerRef = [],
          pay_amount = 112, pay_status = COMPLETED, pay_createdAt = 2000\<rparr>,
         \<lparr>pay_id = 300, pay_invoiceId = 100, pay_provider = ''MANUAL'', pay_providerRef = [],
          pay_amount = 221995, pay_status = COMPLETED, pay_createdAt = 3000\<rparr>,
         \<lparr>pay_id = 400, pay_invoiceId = 100, pay_provider = ''MANUAL'', pay_providerRef = [],
          pay_amount = 52893, pay_status = COMPLETED, pay_createdAt = 4000\<rparr>],
      account_entries =
        [\<lparr>ae_id = 101, ae_clientId = 1, ae_invoiceId = 100, ae_debit = pesos 2750, ae_credit = 0,
          ae_balanceAfter = pesos 2750, ae_createdAt = 1001\<rparr>,
         \<lparr>ae_id = 201, ae_clientId = 1, ae_invoiceId = 100, ae_debit = 0, ae_credit = 112,
          ae_balanceAfter = 274888, ae_createdAt = 2001\<rparr>,
         \<lparr>ae_id = 301, ae_clientId = 1, ae_invoiceId = 100, ae_debit = 0, ae_credit = 221995,
          ae_balanceAfter = 52893, ae_createdAt = 3001\<rparr>,
         \<lparr>ae_id = 401, ae_clientId = 1, ae_invoiceId = 100, ae_debit = 0, ae_credit = 52893,
          ae_balanceAfter = 0, ae_createdAt = 4001\<rparr>]\<rparr>"

definition four_payments_example :: db where
  "four_payments_example =
     \<lparr>user_profiles = [\<lparr>up_id = 1, up_name = Some ''Ana'', up_email = None\<rparr>],
      work_orders =
        [\<lparr>wo_id = 10, wo_dentistId = Some 1, wo_status = DONE, wo_workType = Some PROTESIS,
          wo_price = Some (pesos 2750), wo_displayCode = Some ''OT-1'', wo_patientName = Some ''Luis''\<rparr>],
      invoices =
        [\<lparr>inv_id = 100, inv_clientId = 1, inv_workOrderId = Some 10, inv_amount = pesos 2750,
          inv_currency = ''ARS'', inv_dueAt = 1000, inv_status = PAID, inv_createdAt = 1001\<rparr>],
      payments =
        [\<lparr>pay_id = 200, pay_invoiceId = 100, pay_provider = ''MANUAL'', pay_providerRef = [],
          pay_amount = 112, pay_status = COMPLETED, pay_createdAt = 2000\<rparr>,
         \<lparr>pay_id = 300, pay_invoiceId = 100, pay_provider = ''MANUAL'', pay_providerRef = [],
          pay_amount = 221995, pay_status = COMPLETED, pay_createdAt = 3000\<rparr>,
         \<lparr>pay_id = 400, pay_invoiceId = 100, pay_provider = ''MANUAL'', pay_providerRef = [],
          pay_amount = 52893, pay_status = COMPLETED, pay_createdAt = 4000\<rparr>,
         \<lparr>pay_id = 500, pay_invoiceId = 100, pay_provider = ''MANUAL'', pay_providerRef = [],
          pay_amount = 0, pay_status = COMPLETED, pay_createdAt = 5000\<rparr>],
      account_entries =
        [\<lparr>ae_id = 101, ae_clientId = 1, ae_invoiceId = 100, ae_debit = pesos 2750, ae_credit = 0,
          ae_balanceAfter = pesos 2750, ae_createdAt = 1001\<rparr>,
         \<lparr>ae_id = 201, ae_clientId = 1, ae_invoiceId = 100, ae_debit = 0, ae_credit = 112,
          ae_balanceAfter = 274888, ae_createdAt = 2001\<rparr>,
         \<lparr>ae_id = 301, ae_clientId = 1, ae_invoiceId = 100, ae_debit = 0, ae_credit = 221995,
          ae_balanceAfter = 52893, ae_createdAt = 3001\<rparr>,
         \<lparr>ae_id = 401, ae_clientId = 1, ae_invoiceId = 100, ae_debit = 0, ae_credit = 52893,
          ae_balanceAfter = 0, ae_createdAt = 4001\<rparr>,
         \<lparr>ae_id = 501, ae_clientId = 1, ae_invoiceId = 100, ae_debit = 0, ae_credit = pesos 10,
          ae_balanceAfter = - pesos 10, ae_createdAt = 5001\<rparr>]\<rparr>"

subsection \<open>Editing an invoice amount\<close>




text \<open>
  The store after Scenario 1 followed by a payment of 1000 dated before the invoice:
  the credit entry sorts first but carries the balance computed from the latest entry.
\<close>

definition backdated_example :: db where
  "backdated_example =
     \<lparr>user_profiles = [\<lparr>up_id = 1, up_name = Some ''Ana'', up_email = None\<rparr>],
      work_orders =
        [\<lparr>wo_id = 10, wo_dentistId = Some 1, wo_status = DONE, wo_workType = Some PROTESIS,
          wo_price = Some (pesos 2750), wo_displayCode = Some ''OT-1'', wo_patientName = Some ''Luis''\<rparr>],
      invoices =
        [\<lparr>inv_id = 100, inv_clientId = 1, inv_workOrderId = Some 10, inv_amount = pesos 2750,
          inv_currency = ''ARS'', inv_dueAt = 1000, inv_status = PENDING, inv_createdAt = 1001\<rparr>],
      payments =
        [\<lparr>pay_id = 200, pay_invoiceId = 100, pay_provider = ''MANUAL'', pay_providerRef = [],
          pay_amount = pesos 1000, pay_status = COMPLETED, pay_createdAt = 500\<rparr>],
      account_entries =
        [\<lparr>ae_id = 101, ae_clientId = 1, ae_invoiceId = 100, ae_debit = pesos 2750, ae_credit = 0,
          ae_balanceAfter = pesos 2750, ae_createdAt = 1001\<rparr>,
         \<lparr>ae_id = 201, ae_clientId = 1, ae_invoiceId = 100, ae_debit = 0, ae_credit = pesos 1000,
          ae_balanceAfter = pesos 1750, ae_createdAt = 500\<rparr>]\<rparr>"

subsection \<open>The statement\<close>

text \<open>The rows the builder loads besides the entries, and its two dictionaries.\<close>

definition statement_payments :: "db \<Rightarrow> account_entry list \<Rightarrow> payment list" where
  "statement_payments s entries =
     filter (\<lambda>p. pay_invoiceId p \<in> ae_invoiceId ` set entries) (payments s)"

definition statement_invoicesById :: "db \<Rightarrow> account_entry list \<Rightarrow> (uuid \<rightharpoonup> invoice)" where
  "statement_invoicesById s entries =
     map_of (rev (map (\<lambda>i. (inv_id i, i))
       (filter (\<lambda>i. inv_id i \<in> ae_invoiceId ` set entries) (invoices s))))"

definition statement_workOrdersById :: "db \<Rightarrow> account_entry list \<Rightarrow> (uuid \<rightharpoonup> work_order)" where
  "statement_workOrdersById s entries =
     map_of (rev (map (\<lambda>w. (wo_id w, w))
       (filter (\<lambda>w. wo_id w \<in> set (List.map_filter inv_workOrderId
                        (filter (\<lambda>i. inv_id i \<in> ae_invoiceId ` set entries) (invoices s))))
          (work_orders s))))"





text \<open>
  The store after Scenario 1, a payment of 1000 dated 3000 and then a payment of 1000
  dated 1000: the payment inserted first is the later one.
\<close>

definition ambiguous_example :: db where
  "ambiguous_example =
     \<lparr>user_profiles = [\<lparr>up_id = 1, up_name = Some ''Ana'', up_email = None\<rparr>],
      work_orders =
        [\<lparr>wo_id = 10, wo_dentistId = Some 1, wo_status = DONE, wo_workType = Some PROTESIS,
          wo_price = Some (pesos 2750), wo_displayCode = Some ''OT-1'', wo_patientName = Some ''Luis''\<rparr>],
      invoices =
        [\<lparr>inv_id = 100, inv_clientId = 1, inv_workOrderId = Some 10, inv_amount = pesos 2750,
          inv_currency = ''ARS'', inv_dueAt = 1000, inv_status = PENDING, inv_createdAt = 1001\<rparr>],
      payments =
        [\<lparr>pay_id = 200, pay_invoiceId = 100, pay_provider = ''MANUAL'',
          pay_providerRef = ''first'', pay_amount = pesos 1000, pay_status = COMPLETED,
          pay_createdAt = 3000\<rparr>,
         \<lparr>pay_id = 300, pay_invoiceId = 100, pay_provider = ''MANUAL'',
          pay_providerRef = ''second'', pay_amount = pesos 1000, pay_status = COMPLETED,
          pay_createdAt = 1000\<rparr>],
      account_entries =
        [\<lparr>ae_id = 101, ae_clientId = 1, ae_invoiceId = 100, ae_debit = pesos 2750, ae_credit = 0,
          ae_balanceAfter = pesos 2750, ae_createdAt = 1001\<rparr>,
         \<lparr>ae_id = 201, ae_clientId = 1, ae_invoiceId = 100, ae_debit = 0, ae_credit = pesos 1000,
          ae_balanceAfter = pesos 1750, ae_createdAt = 3000\<rparr>,
         \<lparr>ae_id = 301, ae_clientId = 1, ae_invoiceId = 100, ae_debit = 0, ae_credit = pesos 1000,
          ae_balanceAfter = pesos 750, ae_createdAt = 1000\<rparr>]\<rparr>"

subsection \<open>The status invariant\<close>

text \<open>The status of an invoice agrees with the payments recorded against it.\<close>

definition status_ok :: "db \<Rightarrow> invoice \<Rightarrow> bool" where
  "status_ok s i \<longleftrightarrow> (inv_status i = PAID \<longleftrightarrow> inv_amount i \<le> paid_total s (inv_id i))"

section \<open>The running-balance invariant and the recalculator\<close>

lemma rebalance_fields [simp]:
  "ae_id (rebalance r es x) = ae_id x"
  "ae_clientId (rebalance r es x) = ae_clientId x"
  "ae_invoiceId (rebalance r es x) = ae_invoiceId x"
  "ae_debit (rebalance r es x) = ae_debit x"
  "ae_credit (rebalance r es x) = ae_credit x"
  "ae_createdAt (rebalance r es x) = ae_createdAt x"
  by (simp_all add: rebalance_def split: option.splits)

lemma rebalance_idem: "rebalance r es (rebalance r es x) = rebalance r es x"
  by (simp add: rebalance_def split: option.splits)

lemma rebalance_erase:
  "(rebalance r es x)\<lparr>ae_balanceAfter := b\<rparr> = x\<lparr>ae_balanceAfter := b\<rparr>"
  by (simp add: rebalance_def split: option.splits)

lemma replay_rowwise: "replay r es tbl = map (rebalance r es) tbl"
proof (induction es arbitrary: r tbl)
  case Nil
  show ?case by (simp add: rebalance_def)
next
  case (Cons e es)
  show ?case
    by (simp add: Cons.IH Let_def set_balanceAfter_def rebalance_def split: option.splits)
qed

lemma assigned_cong:
  "map (\<lambda>e. (ae_id e, ae_debit e, ae_credit e)) es = map (\<lambda>e. (ae_id e, ae_debit e, ae_credit e)) es'
   \<Longrightarrow> assigned r es i = assigned r es' i"
proof (induction es arbitrary: r es')
  case Nil
  then show ?case by simp
next
  case (Cons e es)
  then obtain e' es2 where es': "es' = e' # es2" by (cases es') auto
  with Cons.prems have h: "ae_id e = ae_id e'" "ae_debit e = ae_debit e'" "ae_credit e = ae_credit e'"
    and t: "map (\<lambda>e. (ae_id e, ae_debit e, ae_credit e)) es = map (\<lambda>e. (ae_id e, ae_debit e, ae_credit e)) es2"
    by auto
  show ?case unfolding es' by (simp add: h Cons.IH[OF t] Let_def)
qed

lemma rebalance_cong:
  assumes "map (\<lambda>e. (ae_id e, ae_debit e, ae_credit e)) es
             = map (\<lambda>e. (ae_id e, ae_debit e, ae_credit e)) es'"
  shows "rebalance r es = rebalance r es'"
  by (rule ext) (simp add: rebalance_def assigned_cong[OF assms])

lemma insort_key_map_commute:
  assumes "\<And>x. k (g x) = k x"
  shows "insort_key k (g x) (map g xs) = map g (insort_key k x xs)"
  by (induction xs) (simp_all add: assms)

lemma sort_key_map_commute:
  assumes "\<And>x. k (g x) = k x"
  shows "sort_key k (map g xs) = map g (sort_key k xs)"
  using assms by (induction xs) (simp_all add: insort_key_map_commute)

lemma client_ledger_rebalance:
  "client_ledger c (s\<lparr>account_entries := map (rebalance r es) (account_entries s)\<rparr>)
     = map (rebalance r es) (client_ledger c s)"
  by (simp add: client_ledger_def order_asc_def filter_map o_def sort_key_map_commute)

lemma recomputeBalances_rowwise:
  "recomputeBalances c s =
     s\<lparr>account_entries := map (rebalance 0 (client_ledger c s)) (account_entries s)\<rparr>"
  by (simp add: recomputeBalances_def replay_rowwise)

lemma recomputeBalances_idem: "recomputeBalances c (recomputeBalances c s) = recomputeBalances c s"
proof -
  let ?L = "client_ledger c s"
  let ?g = "rebalance 0 ?L"
  have L': "client_ledger c (recomputeBalances c s) = map ?g ?L"
    by (simp add: recomputeBalances_rowwise client_ledger_rebalance)
  have "rebalance 0 (map ?g ?L) = ?g"
    by (rule rebalance_cong) (simp add: o_def)
  then show ?thesis
    by (simp add: recomputeBalances_rowwise[of c "recomputeBalances c s"] L')
       (simp add: recomputeBalances_rowwise o_def rebalance_idem)
qed

lemma assigned_None_iff: "assigned r es i = None \<longleftrightarrow> i \<notin> ae_id ` set es"
proof (induction es arbitrary: r)
  case Nil
  show ?case by simp
next
  case (Cons e es)
  show ?case
    using Cons.IH[of "r + ae_debit e - ae_credit e"]
    by (cases "assigned (r + ae_debit e - ae_credit e) es i") (auto simp: Let_def)
qed

lemma chain_after_rebalance:
  "distinct (map ae_id es) \<Longrightarrow> chain_from r (map (rebalance r es) es)"
proof (induction es arbitrary: r)
  case Nil
  show ?case by simp
next
  case (Cons e es)
  let ?r = "r + ae_debit e - ae_credit e"
  from Cons.prems have notin: "ae_id e \<notin> ae_id ` set es" and d: "distinct (map ae_id es)" by auto
  have hd: "rebalance r (e # es) e = e\<lparr>ae_balanceAfter := ?r\<rparr>"
    using notin by (simp add: rebalance_def Let_def assigned_None_iff[THEN iffD2])
  have tl: "map (rebalance r (e # es)) es = map (rebalance ?r es) es"
  proof (rule map_cong[OF refl])
    fix x assume "x \<in> set es"
    then have "assigned ?r es (ae_id x) \<noteq> None" by (simp add: assigned_None_iff)
    then show "rebalance r (e # es) x = rebalance ?r es x"
      by (auto simp: rebalance_def Let_def split: option.splits)
  qed
  have "chain_from r (e\<lparr>ae_balanceAfter := ?r\<rparr> # map (rebalance ?r es) es)"
    using Cons.IH[OF d, of ?r] by simp
  then show ?case by (simp only: list.map hd tl)
qed

lemma distinct_client_ledger:
  "distinct (map ae_id (account_entries s)) \<Longrightarrow> distinct (map ae_id (client_ledger c s))"
  by (simp add: client_ledger_def order_asc_def distinct_map inj_on_def)

lemma ledger_order_client_ledger: "ledger_order c s = client_ledger c s"
  by (simp add: ledger_order_def client_ledger_def order_asc_def)

lemma recomputeBalances_chain:
  assumes "distinct (map ae_id (account_entries s))"
  shows "ledger_invariant c (recomputeBalances c s)"
  unfolding ledger_invariant_def ledger_order_client_ledger
  by (simp add: recomputeBalances_rowwise client_ledger_rebalance
        chain_after_rebalance[OF distinct_client_ledger[OF assms]])


lemma set_client_ledger:
  "set (client_ledger c s) = {e \<in> set (account_entries s). ae_clientId e = c}"
  by (auto simp: client_ledger_def order_asc_def)

lemma rebalance_other_client:
  assumes d: "distinct (map ae_id (account_entries s))"
    and x: "x \<in> set (account_entries s)" and c: "ae_clientId x \<noteq> c"
  shows "rebalance r (client_ledger c s) x = x"
proof -
  have "ae_id x \<notin> ae_id ` set (client_ledger c s)"
  proof
    assume "ae_id x \<in> ae_id ` set (client_ledger c s)"
    then obtain y where y: "y \<in> set (account_entries s)" "ae_clientId y = c" "ae_id y = ae_id x"
      by (auto simp: set_client_ledger)
    from d have "inj_on ae_id (set (account_entries s))" by (simp add: distinct_map)
    with x y have "y = x" by (auto dest: inj_onD)
    with y c show False by simp
  qed
  then show ?thesis by (simp add: rebalance_def assigned_None_iff[THEN iffD2])
qed

lemma recomputeBalances_other_clients:
  assumes d: "distinct (map ae_id (account_entries s))"
  shows "filter (\<lambda>e. ae_clientId e \<noteq> c) (account_entries (recomputeBalances c s))
           = filter (\<lambda>e. ae_clientId e \<noteq> c) (account_entries s)"
proof -
  have "filter (\<lambda>e. ae_clientId e \<noteq> c) (map (rebalance 0 (client_ledger c s)) (account_entries s))
          = map (rebalance 0 (client_ledger c s)) (filter (\<lambda>e. ae_clientId e \<noteq> c) (account_entries s))"
    by (simp add: filter_map o_def)
  also have "\<dots> = map (\<lambda>x. x) (filter (\<lambda>e. ae_clientId e \<noteq> c) (account_entries s))"
    by (rule map_cong[OF refl]) (simp add: rebalance_other_client[OF d])
  finally show ?thesis by (simp add: recomputeBalances_rowwise)
qed

lemma recomputeBalances_frame:
  "map (\<lambda>e. e\<lparr>ae_balanceAfter := 0\<rparr>) (account_entries (recomputeBalances c s))
     = map (\<lambda>e. e\<lparr>ae_balanceAfter := 0\<rparr>) (account_entries s)"
  "invoices (recomputeBalances c s) = invoices s"
  "payments (recomputeBalances c s) = payments s"
  "work_orders (recomputeBalances c s) = work_orders s"
  "user_profiles (recomputeBalances c s) = user_profiles s"
  by (simp_all add: recomputeBalances_rowwise o_def rebalance_erase)

text \<open>
  C4. \<open>recomputeBalances\<close> is idempotent: a second run right after the first changes
  nothing. It rewrites only \<open>balanceAfter\<close> of ledger rows and touches no other table.
  With unique entry ids (the primary key), the client's balances afterwards are the
  running sums of debit minus credit from 0 over the entries ordered by
  \<open>(createdAt, id)\<close>, and the rows of other clients are unchanged.
\<close>

theorem recomputeBalances_idempotent:
  "recomputeBalances c (recomputeBalances c s) = recomputeBalances c s
   \<and> map (\<lambda>e. e\<lparr>ae_balanceAfter := 0\<rparr>) (account_entries (recomputeBalances c s))
       = map (\<lambda>e. e\<lparr>ae_balanceAfter := 0\<rparr>) (account_entries s)
   \<and> invoices (recomputeBalances c s) = invoices s
   \<and> payments (recomputeBalances c s) = payments s
   \<and> work_orders (recomputeBalances c s) = work_orders s
   \<and> user_profiles (recomputeBalances c s) = user_profiles s
   \<and> (distinct (map ae_id (account_entries s)) \<longrightarrow>
        ledger_invariant c (recomputeBalances c s)
        \<and> filter (\<lambda>e. ae_clientId e \<noteq> c) (account_entries (recomputeBalances c s))
            = filter (\<lambda>e. ae_clientId e \<noteq> c) (account_entries s))"
  using recomputeBalances_idem recomputeBalances_frame recomputeBalances_chain
    recomputeBalances_other_clients
  by simp

theorem recomputeBalances_idempotent_witness:
  "distinct (map ae_id (account_entries ledger_example))
   \<and> map ae_balanceAfter (account_entries (recomputeBalances 1 ledger_example)) = [85, 10, 125, 25]
   \<and> recomputeBalances 1 (recomputeBalances 1 ledger_example) = recomputeBalances 1 ledger_example
   \<and> ledger_invariant 1 (recomputeBalances 1 ledger_example)"
proof -
  have d: "distinct (map ae_id (account_entries ledger_example))"
    by (simp add: ledger_example_def)
  have v: "map ae_balanceAfter (account_entries (recomputeBalances 1 ledger_example)) = [85, 10, 125, 25]"
    by (simp add: ledger_example_def recomputeBalances_def client_ledger_def order_asc_def
          set_balanceAfter_def)
  show ?thesis using d v recomputeBalances_idempotent[of 1 ledger_example] by simp
qed


section \<open>Invoice generation\<close>

lemma first_row_None_iff: "first_row xs = None \<longleftrightarrow> xs = []"
  by (cases xs) (simp_all add: first_row_def)

lemma getLatestBalance_empty:
  "filter (\<lambda>e. ae_clientId e = c) (account_entries s) = [] \<Longrightarrow> getLatestBalance s c = 0"
  by (simp add: getLatestBalance_def order_desc_def first_row_def)

lemma getLatestBalance_frame:
  "account_entries s' = account_entries s \<Longrightarrow> getLatestBalance s' c = getLatestBalance s c"
  by (simp add: getLatestBalance_def)

lemma filter_stamp_price:
  "filter (\<lambda>w. wo_id w = i) (stamp_price i a tbl)
     = map (\<lambda>w. w\<lparr>wo_price := Some a\<rparr>) (filter (\<lambda>w. wo_id w = i) tbl)"
  by (induction tbl) (auto simp: stamp_price_def)

text \<open>
  C5. For an order that is found, has a billing party, is DONE or DELIVERED and has no
  invoice yet, \<open>createInvoiceFromOrder\<close> takes the price table's value for the work type
  when that is positive and the order's stamped price otherwise; it fails with
  \<open>AmountUndetermined\<close> when the amount is not positive; otherwise it appends a PENDING
  invoice of that amount, stamps the amount on the order when the order had no price,
  and appends exactly one ledger entry with that debit, no credit, and the latest balance
  plus the debit (the debit itself on an empty ledger).
\<close>

theorem createInvoiceFromOrder_correct:
  assumes found: "single (filter (\<lambda>w. wo_id w = orderId) (work_orders s)) = Some order"
    and party: "wo_dentistId order = Some c"
    and ready: "wo_status order = DONE \<or> wo_status order = DELIVERED"
    and unbilled: "filter (\<lambda>i. inv_workOrderId i = Some orderId) (invoices s) = []"
    and amount: "amount = (case wo_workType order of
                             Some t \<Rightarrow> if WORK_TYPE_PRICES t > 0 then WORK_TYPE_PRICES t
                                       else (case wo_price order of None \<Rightarrow> 0 | Some p \<Rightarrow> p)
                           | None \<Rightarrow> (case wo_price order of None \<Rightarrow> 0 | Some p \<Rightarrow> p))"
  shows "(amount \<le> 0 \<longrightarrow> createInvoiceFromOrder s env orderId = Inl AmountUndetermined)
    \<and> (amount > 0 \<longrightarrow>
         (\<exists>s' invoice entry.
            createInvoiceFromOrder s env orderId = Inr (s', invoice)
            \<and> inv_amount invoice = amount \<and> inv_status invoice = PENDING
            \<and> inv_clientId invoice = c \<and> inv_workOrderId invoice = Some orderId
            \<and> invoices s' = invoices s @ [invoice]
            \<and> payments s' = payments s
            \<and> user_profiles s' = user_profiles s
            \<and> account_entries s' = account_entries s @ [entry]
            \<and> ae_clientId entry = c \<and> ae_invoiceId entry = inv_id invoice
            \<and> ae_debit entry = amount \<and> ae_credit entry = 0
            \<and> ae_createdAt entry = inv_createdAt invoice
            \<and> ae_balanceAfter entry = getLatestBalance s c + amount
            \<and> (filter (\<lambda>e. ae_clientId e = c) (account_entries s) = [] \<longrightarrow>
                 ae_balanceAfter entry = amount)
            \<and> (wo_price order = None \<longrightarrow>
                 work_orders s' = stamp_price orderId amount (work_orders s)
                 \<and> map wo_price (filter (\<lambda>w. wo_id w = orderId) (work_orders s')) = [Some amount])
            \<and> ((\<exists>p. wo_price order = Some p \<and> p \<noteq> 0) \<longrightarrow> work_orders s' = work_orders s)))"
proof -
  from found have one: "filter (\<lambda>w. wo_id w = orderId) (work_orders s) = [order]"
    by (auto simp: single_def split: list.splits)
  then have "order \<in> set (filter (\<lambda>w. wo_id w = orderId) (work_orders s))" by simp
  then have oid: "wo_id order = orderId" by simp
  have final: "(if priceForWorkType (wo_workType order) > 0 then priceForWorkType (wo_workType order)
                else (case wo_price order of None \<Rightarrow> 0 | Some p \<Rightarrow> p)) = amount"
    by (simp add: amount priceForWorkType_def split: option.splits)
  have stamped: "map wo_price (filter (\<lambda>w. wo_id w = orderId) (stamp_price orderId amount (work_orders s)))
                   = [Some amount]"
  proof -
    have "filter (\<lambda>w. wo_id w = orderId) (stamp_price orderId amount (work_orders s))
            = map (\<lambda>w. w\<lparr>wo_price := Some amount\<rparr>) (filter (\<lambda>w. wo_id w = orderId) (work_orders s))"
      by (rule filter_stamp_price)
    then show ?thesis by (simp add: one)
  qed
  have not_ready: "\<not> (wo_status order \<noteq> DONE \<and> wo_status order \<noteq> DELIVERED)"
    using ready by auto
  show ?thesis
  proof (intro conjI impI)
    assume "amount \<le> 0"
    then show "createInvoiceFromOrder s env orderId = Inl AmountUndetermined"
      using not_ready
      by (simp add: createInvoiceFromOrder_def found party oid unbilled first_row_def final Let_def)
  next
    assume pos: "amount > 0"
    define invoice where "invoice =
      \<lparr>inv_id = gen_uuid env 0, inv_clientId = c, inv_workOrderId = Some orderId,
       inv_amount = amount, inv_currency = ''ARS'', inv_dueAt = clock env 0,
       inv_status = PENDING, inv_createdAt = clock env 1\<rparr>"
    define entry where "entry =
      \<lparr>ae_id = gen_uuid env 1, ae_clientId = c, ae_invoiceId = gen_uuid env 0,
       ae_debit = amount, ae_credit = 0, ae_balanceAfter = getLatestBalance s c + amount,
       ae_createdAt = clock env 1\<rparr>"
    define s' where "s' =
      s\<lparr>invoices := invoices s @ [invoice],
        work_orders := (if wo_price order = None \<or> wo_price order = Some 0
                        then stamp_price orderId amount (work_orders s) else work_orders s),
        account_entries := account_entries s @ [entry]\<rparr>"
    have res: "createInvoiceFromOrder s env orderId = Inr (s', invoice)"
      using not_ready pos
      by (simp add: createInvoiceFromOrder_def found party oid unbilled first_row_def final
            Let_def createAccountEntry_def getLatestBalance_def invoice_def entry_def s'_def)
    have props: "inv_amount invoice = amount \<and> inv_status invoice = PENDING
            \<and> inv_clientId invoice = c \<and> inv_workOrderId invoice = Some orderId
            \<and> invoices s' = invoices s @ [invoice]
            \<and> payments s' = payments s
            \<and> user_profiles s' = user_profiles s
            \<and> account_entries s' = account_entries s @ [entry]
            \<and> ae_clientId entry = c \<and> ae_invoiceId entry = inv_id invoice
            \<and> ae_debit entry = amount \<and> ae_credit entry = 0
            \<and> ae_createdAt entry = inv_createdAt invoice
            \<and> ae_balanceAfter entry = getLatestBalance s c + amount"
      by (simp add: invoice_def entry_def s'_def)
    have empty: "filter (\<lambda>e. ae_clientId e = c) (account_entries s) = [] \<longrightarrow>
                 ae_balanceAfter entry = amount"
      by (simp add: entry_def getLatestBalance_empty)
    have backfill: "wo_price order = None \<longrightarrow>
                 work_orders s' = stamp_price orderId amount (work_orders s)
                 \<and> map wo_price (filter (\<lambda>w. wo_id w = orderId) (work_orders s')) = [Some amount]"
      using stamped by (simp add: s'_def)
    have kept: "(\<exists>p. wo_price order = Some p \<and> p \<noteq> 0) \<longrightarrow> work_orders s' = work_orders s"
      by (auto simp: s'_def)
    show "\<exists>s' invoice entry.
            createInvoiceFromOrder s env orderId = Inr (s', invoice)
            \<and> inv_amount invoice = amount \<and> inv_status invoice = PENDING
            \<and> inv_clientId invoice = c \<and> inv_workOrderId invoice = Some orderId
            \<and> invoices s' = invoices s @ [invoice]
            \<and> payments s' = payments s
            \<and> user_profiles s' = user_profiles s
            \<and> account_entries s' = account_entries s @ [entry]
            \<and> ae_clientId entry = c \<and> ae_invoiceId entry = inv_id invoice
            \<and> ae_debit entry = amount \<and> ae_credit entry = 0
            \<and> ae_createdAt entry = inv_createdAt invoice
            \<and> ae_balanceAfter entry = getLatestBalance s c + amount
            \<and> (filter (\<lambda>e. ae_clientId e = c) (account_entries s) = [] \<longrightarrow>
                 ae_balanceAfter entry = amount)
            \<and> (wo_price order = None \<longrightarrow>
                 work_orders s' = stamp_price orderId amount (work_orders s)
                 \<and> map wo_price (filter (\<lambda>w. wo_id w = orderId) (work_orders s')) = [Some amount])
            \<and> ((\<exists>p. wo_price order = Some p \<and> p \<noteq> 0) \<longrightarrow> work_orders s' = work_orders s)"
      by (rule exI[of _ s'], rule exI[of _ invoice], rule exI[of _ entry])
         (use res props empty backfill kept in \<open>simp only: simp_thms\<close>)
  qed
qed

theorem createInvoiceFromOrder_scenario:
  "\<exists>s' invoice entry.
     createInvoiceFromOrder scenario_db (scenario_env 1) 10 = Inr (s', invoice)
     \<and> inv_amount invoice = pesos 2750 \<and> inv_status invoice = PENDING
     \<and> invoices s' = [invoice] \<and> account_entries s' = [entry]
     \<and> ae_debit entry = pesos 2750 \<and> ae_credit entry = 0
     \<and> ae_balanceAfter entry = pesos 2750
     \<and> map wo_price (work_orders s') = [Some (pesos 2750)]"
proof -
  let ?order = "\<lparr>wo_id = 10, wo_dentistId = Some 1, wo_status = DONE, wo_workType = Some PROTESIS,
          wo_price = None, wo_displayCode = Some ''OT-1'', wo_patientName = Some ''Luis''\<rparr>"
  have 1: "single (filter (\<lambda>w. wo_id w = 10) (work_orders scenario_db)) = Some ?order"
    by (simp add: scenario_db_def single_def)
  have 2: "wo_dentistId ?order = Some 1" by simp
  have 3: "wo_status ?order = DONE \<or> wo_status ?order = DELIVERED" by simp
  have 4: "filter (\<lambda>i. inv_workOrderId i = Some 10) (invoices scenario_db) = []"
    by (simp add: scenario_db_def)
  have 5: "pesos 2750 = (case wo_workType ?order of
                             Some t \<Rightarrow> if WORK_TYPE_PRICES t > 0 then WORK_TYPE_PRICES t
                                       else (case wo_price ?order of None \<Rightarrow> 0 | Some p \<Rightarrow> p)
                           | None \<Rightarrow> (case wo_price ?order of None \<Rightarrow> 0 | Some p \<Rightarrow> p))"
    by simp
  have 6: "filter (\<lambda>e. ae_clientId e = 1) (account_entries scenario_db) = []"
    by (simp add: scenario_db_def)
  have 7: "work_orders scenario_db = [?order]" "invoices scenario_db = []"
    "account_entries scenario_db = []"
    by (simp_all add: scenario_db_def)
  from createInvoiceFromOrder_correct[OF 1 2 3 4 5, of "scenario_env 1"]
  show ?thesis using 6 7 by (auto simp: stamp_price_def)
qed


section \<open>Payment allocation\<close>

lemma settled_Nil [simp]: "settled [] = {}"
  by (simp add: settled_def)

lemma settled_Cons:
  "settled ((i, out, a) # plan)
     = (if num_sub out a \<le> 0 then insert i (settled plan) else settled plan)"
  by (auto simp: settled_def)

lemma mark_all_paid_empty [simp]: "mark_all_paid {} tbl = tbl"
  by (simp add: mark_all_paid_def)

lemma mark_all_paid_insert: "mark_all_paid (insert i ids) tbl = mark_all_paid ids (mark_paid i tbl)"
  by (auto simp: mark_all_paid_def mark_paid_def)


lemma length_plan_rows [simp]: "length (plan_rows env date note k plan) = length plan"
  by (induction plan arbitrary: k) auto

lemma allocate_eq:
  "allocate env date note paid invs r s created first =
     (let plan = allocation_plan r (map (\<lambda>i. (inv_id i, outstanding_of paid i)) invs);
          rows = plan_rows env date note (length created) plan
      in (s\<lparr>payments := payments s @ rows,
            invoices := mark_all_paid (settled plan) (invoices s)\<rparr>,
          created @ rows,
          (case first of
             Some f \<Rightarrow> Some f
           | None \<Rightarrow> (case plan of [] \<Rightarrow> None | (i, out, a) # _ \<Rightarrow> Some i))))"
proof (induction invs arbitrary: r s created first)
  case Nil
  show ?case by (simp split: option.splits)
next
  case (Cons invoice rest)
  show ?case
    by (simp add: Cons.IH Let_def outstanding_of_def min_def settled_Cons mark_all_paid_insert
          split: option.splits)
qed



lemma paymentsByInvoice_foldl:
  "(case foldl (\<lambda>m p. m(pay_invoiceId p \<mapsto>
                      num_add (case m (pay_invoiceId p) of None \<Rightarrow> 0 | Some c \<Rightarrow> c)
                        (toNumber (pay_amount p)))) m ps i of
      None \<Rightarrow> 0 | Some v \<Rightarrow> v)
   = foldl num_add (case m i of None \<Rightarrow> 0 | Some v \<Rightarrow> v)
       (map (\<lambda>p. toNumber (pay_amount p)) (filter (\<lambda>p. pay_invoiceId p = i) ps))"
  by (induction ps arbitrary: m) (auto split: option.splits)

lemma paymentsByInvoice_sum:
  "(case paymentsByInvoice ps i of None \<Rightarrow> 0 | Some v \<Rightarrow> v)
     = foldl num_add 0 (map (\<lambda>p. toNumber (pay_amount p)) (filter (\<lambda>p. pay_invoiceId p = i) ps))"
  unfolding paymentsByInvoice_def by (simp add: paymentsByInvoice_foldl)

lemma outstanding_of_loaded:
  assumes "invoice \<in> set invs"
  shows "outstanding_of
           (paymentsByInvoice
              (if map inv_id invs = [] then []
               else filter (\<lambda>p. pay_invoiceId p \<in> set (map inv_id invs)) (payments s)))
           invoice
         = num_sub (toNumber (inv_amount invoice)) (paid_number s (inv_id invoice))"
proof -
  from assms have ne: "map inv_id invs \<noteq> []" by auto
  have "filter (\<lambda>p. pay_invoiceId p = inv_id invoice)
          (filter (\<lambda>p. pay_invoiceId p \<in> set (map inv_id invs)) (payments s))
        = filter (\<lambda>p. pay_invoiceId p = inv_id invoice) (payments s)"
    using assms by (auto intro: filter_cong)
  then show ?thesis
    using ne by (simp add: outstanding_of_def paymentsByInvoice_sum paid_number_def)
qed

lemma recordPayment_eq:
  assumes note_ok: "case note of None \<Rightarrow> True | Some n \<Rightarrow> length n \<le> 200"
    and client: "single (filter (\<lambda>u. up_id u = c) (user_profiles s)) = Some client"
    and pos: "amount > 0"
  shows "recordPayment s env c amount date note =
     (let plan = payment_plan s c amount;
          rows = plan_rows env date note 0 plan;
          s1 = s\<lparr>payments := payments s @ rows,
                 invoices := mark_all_paid (settled plan) (invoices s)\<rparr>;
          firstInvoiceId =
            (case plan of
               (i, out, a) # _ \<Rightarrow> Some i
             | [] \<Rightarrow> (case first_row (order_desc inv_createdAt
                                (filter (\<lambda>i. inv_clientId i = c) (invoices s1))) of
                        None \<Rightarrow> None
                      | Some anyInvoice \<Rightarrow> Some (inv_id anyInvoice)));
          n = length rows
      in Inr (case firstInvoiceId of
                None \<Rightarrow> s1
              | Some f \<Rightarrow>
                  fst (createAccountEntry s1 (gen_uuid env n) (clock env n) c f 0 amount
                         (Some (case date of None \<Rightarrow> clock env n | Some d \<Rightarrow> d))),
              rows))"
proof -
  let ?invs = "pending_invoices s c"
  let ?paid = "paymentsByInvoice
              (if map inv_id ?invs = [] then []
               else filter (\<lambda>p. pay_invoiceId p \<in> set (map inv_id ?invs)) (payments s))"
  have plan: "allocation_plan (toNumber amount) (map (\<lambda>i. (inv_id i, outstanding_of ?paid i)) ?invs)
                = payment_plan s c amount"
    unfolding payment_plan_def
    by (rule arg_cong[where f = "allocation_plan (toNumber amount)"], rule map_cong[OF refl])
       (simp only: outstanding_of_loaded)
  have nt: "\<not> (case note of None \<Rightarrow> False | Some n \<Rightarrow> length n > 200)"
    using note_ok by (simp split: option.splits)
  let ?plan = "payment_plan s c amount"
  let ?rows = "plan_rows env date note 0 ?plan"
  have alloc: "allocate env date note ?paid ?invs (toNumber amount) s [] None
      = (s\<lparr>payments := payments s @ ?rows,
            invoices := mark_all_paid (settled ?plan) (invoices s)\<rparr>,
         ?rows,
         (case ?plan of [] \<Rightarrow> None | (i, out, a) # _ \<Rightarrow> Some i))"
    by (simp only: allocate_eq plan Let_def list.size append_Nil option.case)
  show ?thesis
  proof (cases ?plan)
    case Nil
    show ?thesis
      unfolding recordPayment_def Let_def alloc prod.case
      using nt pos by (simp add: client Nil)
  next
    case (Cons x rest)
    obtain i out a where x: "x = (i, out, a)" by (cases x)
    show ?thesis
      unfolding recordPayment_def Let_def alloc prod.case
      using nt pos by (simp add: client Cons x)
  qed
qed


lemma set_pending_invoices:
  "set (pending_invoices s c)
     = {i \<in> set (invoices s). inv_clientId i = c \<and> inv_status i = PENDING}"
  by (auto simp: pending_invoices_def order_asc_def)


lemma partly_paid_example_reached:
  "(case createInvoiceFromOrder scenario_db (scenario_env 1) 10 of
      Inl e \<Rightarrow> None
    | Inr (s1, invoice) \<Rightarrow>
        (case recordPayment s1 (scenario_env 2) 1 25603 None None of
           Inl e \<Rightarrow> None
         | Inr (s2, created) \<Rightarrow> Some s2))
   = Some partly_paid_example"
  by code_simp




section \<open>The single ledger credit of a payment\<close>

lemma first_row_map: "first_row (map g xs) = map_option g (first_row xs)"
  by (cases xs) (simp_all add: first_row_def)

lemma first_row_order_desc:
  assumes "first_row (order_desc k xs) = Some x"
  shows "x \<in> set xs \<and> (\<forall>y \<in> set xs. k y \<le> k x)"
proof -
  from assms obtain rest where eq: "sort_key (\<lambda>r. - k r) xs = x # rest"
    by (cases "sort_key (\<lambda>r. - k r) xs") (simp_all add: first_row_def order_desc_def)
  have "sorted (map (\<lambda>r. - k r) (sort_key (\<lambda>r. - k r) xs))" by simp
  then have le: "\<forall>y \<in> set rest. - k x \<le> - k y" by (simp add: eq)
  have "set xs = set (x # rest)" using eq by (metis set_sort)
  then show ?thesis using le by auto
qed

lemma first_row_order_desc_None:
  "first_row (order_desc k xs) = None \<longleftrightarrow> xs = []"
proof -
  have "length (sort_key (\<lambda>r. - k r) xs) = length xs" by simp
  then show ?thesis
    by (cases "sort_key (\<lambda>r. - k r) xs"; cases xs) (auto simp: first_row_def order_desc_def)
qed

lemma mark_all_paid_fields:
  "map inv_id (mark_all_paid S tbl) = map inv_id tbl"
  "map inv_clientId (mark_all_paid S tbl) = map inv_clientId tbl"
  "map inv_createdAt (mark_all_paid S tbl) = map inv_createdAt tbl"
  "map inv_amount (mark_all_paid S tbl) = map inv_amount tbl"
  by (simp_all add: mark_all_paid_def o_def if_distrib cong: if_cong)

lemma latest_invoice_mark_all_paid:
  "map_option inv_id (first_row (order_desc inv_createdAt
       (filter (\<lambda>i. inv_clientId i = c) (mark_all_paid S tbl))))
   = map_option inv_id (first_row (order_desc inv_createdAt
       (filter (\<lambda>i. inv_clientId i = c) tbl)))"
proof -
  let ?g = "\<lambda>x. if inv_id x \<in> S then x\<lparr>inv_status := PAID\<rparr> else x"
  have "order_desc inv_createdAt (filter (\<lambda>i. inv_clientId i = c) (map ?g tbl))
          = map ?g (order_desc inv_createdAt (filter (\<lambda>i. inv_clientId i = c) tbl))"
    unfolding order_desc_def
    by (subst sort_key_map_commute[symmetric]) (simp_all add: filter_map o_def if_distrib cong: if_cong)
  then show ?thesis
    by (simp add: mark_all_paid_def first_row_map option.map_comp o_def if_distrib cong: if_cong)
qed

lemma pending_invoices_subset:
  "filter (\<lambda>i. inv_clientId i = c) (invoices s) = [] \<Longrightarrow> pending_invoices s c = []"
proof -
  assume "filter (\<lambda>i. inv_clientId i = c) (invoices s) = []"
  then have "\<forall>i \<in> set (invoices s). inv_clientId i \<noteq> c" by (simp add: filter_empty_conv)
  then have "set (pending_invoices s c) = {}" by (auto simp: set_pending_invoices)
  then show ?thesis by simp
qed

text \<open>
  C3. For an existing client and a positive amount, \<open>recordPayment\<close> appends no ledger
  entry when the client has no invoice at all, and otherwise exactly one entry, with no
  debit and the full input amount as credit, whatever the number of invoices paid and
  whatever the surplus. Its invoice is that of the first payment row created, or, when
  no row was created, an invoice of the client with the latest creation time.
\<close>

theorem recordPayment_single_credit:
  assumes note_ok: "case note of None \<Rightarrow> True | Some n \<Rightarrow> length n \<le> 200"
    and client: "single (filter (\<lambda>u. up_id u = c) (user_profiles s)) = Some client"
    and pos: "amount > 0"
  shows "\<exists>s' created.
      recordPayment s env c amount date note = Inr (s', created)
      \<and> (filter (\<lambda>i. inv_clientId i = c) (invoices s) = [] \<longrightarrow>
            account_entries s' = account_entries s)
      \<and> (filter (\<lambda>i. inv_clientId i = c) (invoices s) \<noteq> [] \<longrightarrow>
            (\<exists>entry.
               account_entries s' = account_entries s @ [entry]
               \<and> ae_clientId entry = c \<and> ae_debit entry = 0 \<and> ae_credit entry = amount
               \<and> ae_balanceAfter entry = getLatestBalance s c - amount
               \<and> ae_createdAt entry
                    = (case date of None \<Rightarrow> clock env (length created) | Some d \<Rightarrow> d)
               \<and> (case created of
                     p # _ \<Rightarrow> ae_invoiceId entry = pay_invoiceId p
                   | [] \<Rightarrow>
                       (\<exists>inv \<in> set (invoices s).
                          inv_clientId inv = c \<and> ae_invoiceId entry = inv_id inv
                          \<and> (\<forall>j \<in> set (invoices s).
                                inv_clientId j = c \<longrightarrow> inv_createdAt j \<le> inv_createdAt inv)))))"
proof -
  let ?plan = "payment_plan s c amount"
  let ?rows = "plan_rows env date note 0 ?plan"
  let ?s1 = "s\<lparr>payments := payments s @ ?rows,
               invoices := mark_all_paid (settled ?plan) (invoices s)\<rparr>"
  let ?latest = "first_row (order_desc inv_createdAt (filter (\<lambda>i. inv_clientId i = c) (invoices s)))"
  let ?first = "case ?plan of
                  (i, out, a) # _ \<Rightarrow> Some i
                | [] \<Rightarrow> map_option inv_id ?latest"
  let ?entry = "\<lambda>f. \<lparr>ae_id = gen_uuid env (length ?rows), ae_clientId = c, ae_invoiceId = f,
                      ae_debit = 0, ae_credit = amount,
                      ae_balanceAfter = getLatestBalance s c - amount,
                      ae_createdAt = (case date of None \<Rightarrow> clock env (length ?rows) | Some d \<Rightarrow> d)\<rparr>"
  let ?s' = "case ?first of
               None \<Rightarrow> ?s1
             | Some f \<Rightarrow> ?s1\<lparr>account_entries := account_entries s @ [?entry f]\<rparr>"
  have first_eq: "(case ?plan of
               (i, out, a) # _ \<Rightarrow> Some i
             | [] \<Rightarrow> (case first_row (order_desc inv_createdAt
                                (filter (\<lambda>i. inv_clientId i = c) (invoices ?s1))) of
                        None \<Rightarrow> None
                      | Some anyInvoice \<Rightarrow> Some (inv_id anyInvoice))) = ?first"
  proof -
    have "(case first_row (order_desc inv_createdAt
                                (filter (\<lambda>i. inv_clientId i = c) (invoices ?s1))) of
                        None \<Rightarrow> None
                      | Some anyInvoice \<Rightarrow> Some (inv_id anyInvoice))
          = map_option inv_id (first_row (order_desc inv_createdAt
                                (filter (\<lambda>i. inv_clientId i = c) (invoices ?s1))))"
      by (simp split: option.splits)
    also have "\<dots> = map_option inv_id ?latest"
      by (simp add: latest_invoice_mark_all_paid)
    finally show ?thesis by (simp only:)
  qed
  have lb: "getLatestBalance ?s1 c = getLatestBalance s c"
    by (simp add: getLatestBalance_def)
  have res: "recordPayment s env c amount date note = Inr (?s', ?rows)"
    unfolding recordPayment_eq[OF note_ok client pos] Let_def first_eq
    by (cases ?first) (simp_all add: createAccountEntry_def Let_def lb)
  have none: "filter (\<lambda>i. inv_clientId i = c) (invoices s) = [] \<longrightarrow>
            account_entries ?s' = account_entries s"
  proof
    assume e: "filter (\<lambda>i. inv_clientId i = c) (invoices s) = []"
    then have "?plan = []" by (simp add: payment_plan_def pending_invoices_subset)
    moreover have "?latest = None" using e by (simp add: first_row_order_desc_None)
    ultimately show "account_entries ?s' = account_entries s" by simp
  qed
  have some: "filter (\<lambda>i. inv_clientId i = c) (invoices s) \<noteq> [] \<longrightarrow>
            (\<exists>entry.
               account_entries ?s' = account_entries s @ [entry]
               \<and> ae_clientId entry = c \<and> ae_debit entry = 0 \<and> ae_credit entry = amount
               \<and> ae_balanceAfter entry = getLatestBalance s c - amount
               \<and> ae_createdAt entry
                    = (case date of None \<Rightarrow> clock env (length ?rows) | Some d \<Rightarrow> d)
               \<and> (case ?rows of
                     p # _ \<Rightarrow> ae_invoiceId entry = pay_invoiceId p
                   | [] \<Rightarrow>
                       (\<exists>inv \<in> set (invoices s).
                          inv_clientId inv = c \<and> ae_invoiceId entry = inv_id inv
                          \<and> (\<forall>j \<in> set (invoices s).
                                inv_clientId j = c \<longrightarrow> inv_createdAt j \<le> inv_createdAt inv))))"
  proof
    assume ne: "filter (\<lambda>i. inv_clientId i = c) (invoices s) \<noteq> []"
    then obtain any where any: "?latest = Some any"
      using first_row_order_desc_None[of inv_createdAt "filter (\<lambda>i. inv_clientId i = c) (invoices s)"]
      by (cases ?latest) auto
    from first_row_order_desc[OF any]
    have anyp: "any \<in> set (invoices s)" "inv_clientId any = c"
      "\<forall>j \<in> set (invoices s). inv_clientId j = c \<longrightarrow> inv_createdAt j \<le> inv_createdAt any"
      by auto
    show "\<exists>entry.
               account_entries ?s' = account_entries s @ [entry]
               \<and> ae_clientId entry = c \<and> ae_debit entry = 0 \<and> ae_credit entry = amount
               \<and> ae_balanceAfter entry = getLatestBalance s c - amount
               \<and> ae_createdAt entry
                    = (case date of None \<Rightarrow> clock env (length ?rows) | Some d \<Rightarrow> d)
               \<and> (case ?rows of
                     p # _ \<Rightarrow> ae_invoiceId entry = pay_invoiceId p
                   | [] \<Rightarrow>
                       (\<exists>inv \<in> set (invoices s).
                          inv_clientId inv = c \<and> ae_invoiceId entry = inv_id inv
                          \<and> (\<forall>j \<in> set (invoices s).
                                inv_clientId j = c \<longrightarrow> inv_createdAt j \<le> inv_createdAt inv)))"
    proof (cases ?plan)
      case Nil
      have "\<exists>inv \<in> set (invoices s).
                 inv_clientId inv = c \<and> inv_id any = inv_id inv
                 \<and> (\<forall>j \<in> set (invoices s).
                        inv_clientId j = c \<longrightarrow> inv_createdAt j \<le> inv_createdAt inv)"
        using anyp by blast
      then show ?thesis
        by (intro exI[of _ "?entry (inv_id any)"]) (simp add: Nil any)
    next
      case (Cons x rest)
      obtain i out a where x: "x = (i, out, a)" by (cases x)
      show ?thesis
        by (intro exI[of _ "?entry i"]) (simp add: Cons x)
    qed
  qed
  show ?thesis
    by (rule exI[of _ ?s'], rule exI[of _ ?rows])
       (use res none some in \<open>simp only: simp_thms\<close>)
qed


theorem recordPayment_single_credit_witness:
  "(case recordPayment allocation_example (scenario_env 3) 1 (pesos 500) None None of
      Inl e \<Rightarrow> False
    | Inr (s', created) \<Rightarrow>
        map (\<lambda>p. (pay_invoiceId p, pay_amount p)) created = [(7, pesos 100), (8, pesos 50)]
        \<and> map (\<lambda>e. (ae_invoiceId e, ae_debit e, ae_credit e, ae_balanceAfter e)) (account_entries s')
            = [(7, pesos 100, 0, pesos 100), (8, pesos 50, 0, pesos 150),
               (7, 0, pesos 500, - pesos 350)])
   \<and> (case recordPayment scenario_db (scenario_env 3) 1 (pesos 500) None None of
        Inl e \<Rightarrow> False
      | Inr (s', created) \<Rightarrow> created = [] \<and> account_entries s' = [])"
proof -
  have 1: "case None :: string option of None \<Rightarrow> True | Some n \<Rightarrow> length n \<le> 200" by simp
  have 2: "single (filter (\<lambda>u. up_id u = 1) (user_profiles allocation_example))
             = Some \<lparr>up_id = 1, up_name = Some ''Ana'', up_email = None\<rparr>"
    by (simp add: allocation_example_def single_def)
  have 3: "single (filter (\<lambda>u. up_id u = 1) (user_profiles scenario_db))
             = Some \<lparr>up_id = 1, up_name = Some ''Ana'', up_email = None\<rparr>"
    by (simp add: scenario_db_def single_def)
  have 4: "pesos 500 > 0" by simp
  have run: "case recordPayment allocation_example (scenario_env 3) 1 (pesos 500) None None of
      Inl e \<Rightarrow> False
    | Inr (s', created) \<Rightarrow>
        map (\<lambda>p. (pay_invoiceId p, pay_amount p)) created = [(7, pesos 100), (8, pesos 50)]
        \<and> map (\<lambda>e. (ae_invoiceId e, ae_debit e, ae_credit e, ae_balanceAfter e)) (account_entries s')
            = [(7, pesos 100, 0, pesos 100), (8, pesos 50, 0, pesos 150),
               (7, 0, pesos 500, - pesos 350)]"
    by code_simp
  from recordPayment_single_credit[OF 1 3 4, where env = "scenario_env 3" and date = None]
  obtain s' created where
    res: "recordPayment scenario_db (scenario_env 3) 1 (pesos 500) None None = Inr (s', created)"
    and none: "filter (\<lambda>i. inv_clientId i = 1) (invoices scenario_db) = [] \<longrightarrow>
                 account_entries s' = account_entries scenario_db"
    by blast
  have "recordPayment scenario_db (scenario_env 3) 1 (pesos 500) None None = Inr (s', [])"
    unfolding recordPayment_eq[OF 1 3 4] payment_plan_def Let_def
    using res[unfolded recordPayment_eq[OF 1 3 4] payment_plan_def Let_def]
    by (simp add: scenario_db_def pending_invoices_def order_asc_def)
  with res have c: "created = []" by simp
  have e: "account_entries s' = []"
    using none by (simp add: scenario_db_def)
  have second: "case recordPayment scenario_db (scenario_env 3) 1 (pesos 500) None None of
        Inl e \<Rightarrow> False
      | Inr (s', created) \<Rightarrow> created = [] \<and> account_entries s' = []"
    unfolding res using c e by simp
  show ?thesis
    using run second by (simp only: simp_thms)
qed

section \<open>Deleting a payment\<close>









lemma paid_example_reached:
  "(case createInvoiceFromOrder scenario_db (scenario_env 1) 10 of
      Inl e \<Rightarrow> None
    | Inr (s1, invoice) \<Rightarrow>
        (case recordPayment s1 (scenario_env 2) 1 (pesos 2750) None None of
           Inl e \<Rightarrow> None
         | Inr (s2, created) \<Rightarrow> Some s2))
   = Some paid_example"
  by code_simp


lemma two_payments_example_reached:
  "(case createInvoiceFromOrder scenario_db (scenario_env 1) 10 of
      Inl e \<Rightarrow> None
    | Inr (s1, invoice) \<Rightarrow>
        (case recordPayment s1 (scenario_env 2) 1 (pesos 1000) None None of
           Inl e \<Rightarrow> None
         | Inr (s2, created) \<Rightarrow>
             (case recordPayment s2 (scenario_env 3) 1 (pesos 1750) None None of
                Inl e \<Rightarrow> None
              | Inr (s3, created') \<Rightarrow> Some s3)))
   = Some two_payments_example"
  by code_simp

lemma three_payments_example_reached:
  "(case createInvoiceFromOrder scenario_db (scenario_env 1) 10 of
      Inl e \<Rightarrow> None
    | Inr (s1, invoice) \<Rightarrow>
        (case recordPayment s1 (scenario_env 2) 1 112 None None of
           Inl e \<Rightarrow> None
         | Inr (s2, created) \<Rightarrow>
             (case recordPayment s2 (scenario_env 3) 1 221995 None None of
                Inl e \<Rightarrow> None
              | Inr (s3, created') \<Rightarrow>
                  (case recordPayment s3 (scenario_env 4) 1 52893 None None of
                     Inl e \<Rightarrow> None
                   | Inr (s4, created'') \<Rightarrow> Some s4))))
   = Some three_payments_example"
  by code_simp

lemma four_payments_example_reached:
  "(case recordPayment three_payments_example (scenario_env 5) 1 (pesos 10) None None of
      Inl e \<Rightarrow> None
    | Inr (s', created) \<Rightarrow> Some s')
   = Some four_payments_example"
  by code_simp




section \<open>Editing an invoice amount\<close>






lemma set_debit_ids [simp]: "map ae_id (set_debit i a tbl) = map ae_id tbl"
  by (simp add: set_debit_def o_def if_distrib cong: if_cong)

lemma backdated_example_reached:
  "(case createInvoiceFromOrder scenario_db (scenario_env 1) 10 of
      Inl e \<Rightarrow> None
    | Inr (s1, invoice) \<Rightarrow>
        (case recordPayment s1 (scenario_env 2) 1 (pesos 1000) (Some 500) None of
           Inl e \<Rightarrow> None
         | Inr (s2, created) \<Rightarrow> Some s2))
   = Some backdated_example"
  by code_simp




section \<open>The ledger invariant under appends\<close>

text \<open>
  C1. \<open>createAccountEntry\<close> takes the balance of the entry with the latest \<open>createdAt\<close>
  and adds the new debit and credit to it, which continues the chain only when the new
  entry sorts last. \<open>recordPayment\<close> passes the caller's \<open>date\<close> as \<open>createdAt\<close> and
  runs no recalculation. After Scenario 1 (invoice and debit of 2750 at time 1001) the
  invariant holds; a payment of 1000 dated 500 then yields a ledger whose first entry in
  \<open>(createdAt, id)\<close> order has balance 1750 instead of -1000, so the invariant fails.
\<close>

theorem recordPayment_backdated_breaks_ledger_invariant:
  "case createInvoiceFromOrder scenario_db (scenario_env 1) 10 of
     Inl e \<Rightarrow> False
   | Inr (s1, invoice) \<Rightarrow>
       ledger_invariant 1 s1
       \<and> (case recordPayment s1 (scenario_env 2) 1 (pesos 1000) (Some 500) None of
            Inl e \<Rightarrow> False
          | Inr (s2, created) \<Rightarrow>
              s2 = backdated_example
              \<and> map (\<lambda>e. (ae_createdAt e, ae_debit e, ae_credit e, ae_balanceAfter e))
                    (client_ledger 1 s2)
                  = [(500, 0, pesos 1000, pesos 1750), (1001, pesos 2750, 0, pesos 2750)]
              \<and> \<not> ledger_invariant 1 s2)"
  by code_simp

section \<open>The statement\<close>




lemma statement_fold:
  "foldl (\<lambda>(ft, et, rs) entry. (ft + ae_debit entry, et + ae_credit entry, rs @ [g entry]))
     (a, b, rows) entries
   = (a + sum_list (map ae_debit entries), b + sum_list (map ae_credit entries),
      rows @ map g entries)"
  by (induction entries arbitrary: a b rows) simp_all

lemma statementWithDateSchema_valid:
  "statementWithDateSchema (Uuid c) (map_option Date dateFrom) (map_option Date dateTo)
     = Inr (c, dateFrom, dateTo)"
  by (cases dateFrom; cases dateTo) (simp_all add: statementWithDateSchema_def)

lemma getStatementByClient_eq:
  assumes client: "single (filter (\<lambda>u. up_id u = c) (user_profiles s)) = Some client"
  shows "getStatementByClient s tz (Uuid c) (map_option Date dateFrom) (map_option Date dateTo) =
     (let entries = statement_entries s tz c dateFrom dateTo;
          rows = map (statement_row_of (statement_invoicesById s entries)
                        (statement_workOrdersById s entries) (statement_payments s entries)) entries
      in Inr \<lparr>st_clientId = up_id client,
              st_clientName =
                (case up_name client of
                   Some n \<Rightarrow> n
                 | None \<Rightarrow> (case up_email client of Some m \<Rightarrow> m | None \<Rightarrow> ''Cliente'')),
              st_rows = rows,
              st_totals = \<lparr>t_facturas = sum_list (map ae_debit entries),
                           t_entregas = sum_list (map ae_credit entries),
                           t_saldo = sum_list (map ae_debit entries)
                                       - sum_list (map ae_credit entries)\<rparr>\<rparr>)"
proof -
  let ?entries = "statement_entries s tz c dateFrom dateTo"
  have filt: "(if P = [] then [] else filter (\<lambda>x. k x \<in> set P) tbl) = filter (\<lambda>x. k x \<in> set P) tbl"
    for P :: "uuid list" and k :: "'a \<Rightarrow> uuid" and tbl
    by simp
  show ?thesis
    unfolding getStatementByClient_def statementWithDateSchema_valid sum.case prod.case
      client Let_def option.case filt statement_fold
      statement_payments_def statement_invoicesById_def statement_workOrdersById_def
    by (simp add: set_remdups)
qed






lemma ambiguous_example_reached:
  "(case createInvoiceFromOrder scenario_db (scenario_env 1) 10 of
      Inl e \<Rightarrow> None
    | Inr (s1, invoice) \<Rightarrow>
        (case recordPayment s1 (scenario_env 2) 1 (pesos 1000) (Some 3000) (Some ''first'') of
           Inl e \<Rightarrow> None
         | Inr (s2, created) \<Rightarrow>
             (case recordPayment s2 (scenario_env 3) 1 (pesos 1000) (Some 1000) (Some ''second'') of
                Inl e \<Rightarrow> None
              | Inr (s3, created') \<Rightarrow> Some s3)))
   = Some ambiguous_example"
  by code_simp




section \<open>Failures of the statement builder\<close>

lemma statementWithDateSchema_invalid:
  assumes "(\<forall>c. clientId \<noteq> Uuid c) \<or> dateFrom = Some InvalidDate \<or> dateTo = Some InvalidDate"
  shows "statementWithDateSchema clientId dateFrom dateTo = Inl InvalidInput"
proof (cases clientId)
  case (NotUuid raw)
  then show ?thesis by (simp add: statementWithDateSchema_def)
next
  case (Uuid c)
  with assms have d: "dateFrom = Some InvalidDate \<or> dateTo = Some InvalidDate" by simp
  show ?thesis
  proof (cases "coerce_date dateFrom")
    case (Inl e)
    then have "e = InvalidInput" by (cases dateFrom rule: coerce_date.cases) simp_all
    with Inl show ?thesis by (simp add: statementWithDateSchema_def Uuid)
  next
    case (Inr f)
    then have "dateFrom \<noteq> Some InvalidDate" by auto
    with d have "dateTo = Some InvalidDate" by simp
    then show ?thesis by (simp add: statementWithDateSchema_def Uuid Inr)
  qed
qed

lemma js_date_cases: "x = Some InvalidDate \<or> (\<exists>t. x = map_option Date t)"
proof (cases x)
  case None
  then have "x = map_option Date None" by simp
  then show ?thesis by blast
next
  case (Some d)
  show ?thesis
  proof (cases d)
    case (Date t)
    with Some have "x = map_option Date (Some t)" by simp
    then show ?thesis by blast
  next
    case InvalidDate
    with Some show ?thesis by simp
  qed
qed

lemma map_option_Date_valid: "map_option Date t \<noteq> Some InvalidDate"
  by (cases t) simp_all

lemma single_None_iff: "single xs = None \<longleftrightarrow> length xs \<noteq> 1"
  by (cases xs; cases "tl xs") (auto simp: single_def)

lemma getStatementByClient_invalid:
  assumes "(\<forall>c. clientId \<noteq> Uuid c) \<or> dateFrom = Some InvalidDate \<or> dateTo = Some InvalidDate"
  shows "getStatementByClient s tz clientId dateFrom dateTo = Inl InvalidInput"
  by (simp add: getStatementByClient_def statementWithDateSchema_invalid[OF assms])

lemma getStatementByClient_unknown:
  assumes "length (filter (\<lambda>u. up_id u = c) (user_profiles s)) \<noteq> 1"
  shows "getStatementByClient s tz (Uuid c) (map_option Date f) (map_option Date t)
           = Inl ClientNotFound"
  using assms
  by (simp add: getStatementByClient_def statementWithDateSchema_valid single_None_iff[THEN iffD2])

lemma statement_row_of_copies:
  "r_fecha (statement_row_of a b pays e) = ae_createdAt e"
  "r_facturas (statement_row_of a b pays e) = ae_debit e"
  "r_entregas (statement_row_of a b pays e) = ae_credit e"
  "r_saldoAcumulado (statement_row_of a b pays e) = ae_balanceAfter e"
  by (simp_all add: statement_row_of_def Let_def)

lemma statement_row_of_paymentId:
  "r_paymentId (statement_row_of a b pays e) = Some i \<Longrightarrow> i \<in> pay_id ` set pays"
  by (auto simp: statement_row_of_def Let_def find_Some_iff split: if_splits option.splits)

lemma getStatementByClient_known:
  assumes "filter (\<lambda>u. up_id u = c) (user_profiles s) = [u]"
  shows "\<exists>st. getStatementByClient s tz (Uuid c) (map_option Date f) (map_option Date t) = Inr st
           \<and> st_clientId st = c
           \<and> map (\<lambda>r. (r_fecha r, r_facturas r, r_entregas r, r_saldoAcumulado r)) (st_rows st)
               = map (\<lambda>e. (ae_createdAt e, ae_debit e, ae_credit e, ae_balanceAfter e))
                   (statement_entries s tz c f t)
           \<and> (\<forall>r \<in> set (st_rows st). \<forall>i. r_paymentId r = Some i \<longrightarrow> i \<in> pay_id ` set (payments s))"
proof -
  from assms have client: "single (filter (\<lambda>u. up_id u = c) (user_profiles s)) = Some u"
    by (simp add: single_def)
  from assms have "u \<in> set (filter (\<lambda>u. up_id u = c) (user_profiles s))" by simp
  then have uid: "up_id u = c" by simp
  let ?entries = "statement_entries s tz c f t"
  let ?pays = "statement_payments s ?entries"
  have sub: "pay_id ` set ?pays \<subseteq> pay_id ` set (payments s)"
    by (auto simp: statement_payments_def)
  show ?thesis
    unfolding getStatementByClient_eq[OF client] Let_def
    using sub
    by (auto simp: uid statement_row_of_copies o_def dest!: statement_row_of_paymentId)
qed

text \<open>
  C10, as stated, fails: with every store read succeeding, a client id without a profile
  makes the builder fail with \<open>ClientNotFound\<close>, and a text that is not a uuid makes it
  fail in its schema check; neither call returns a statement.
\<close>

theorem getStatementByClient_unknown_client_counterexample:
  "getStatementByClient paid_example 0 (Uuid 2) None None = Inl ClientNotFound
   \<and> getStatementByClient paid_example 0 (NotUuid ''1'') None None = Inl InvalidInput"
  by code_simp

text \<open>
  C10, amended. With every store read succeeding, the builder fails in two cases only:
  with \<open>InvalidInput\<close> exactly when the client id is not a uuid or a date is invalid,
  and with \<open>ClientNotFound\<close> exactly when the arguments are valid and the id has no
  profile. For valid arguments and an existing client it returns a statement of that
  client with one row per entry in range, in order, carrying the entry's timestamp,
  debit, credit and balance, whatever the ledger and the payments contain: a row names a
  payment of the store or none, and an ambiguous or a missing match never makes the call
  fail.
\<close>

theorem getStatementByClient_failures:
  "(getStatementByClient s tz clientId dateFrom dateTo = Inl InvalidInput
      \<longleftrightarrow> (\<forall>c. clientId \<noteq> Uuid c) \<or> dateFrom = Some InvalidDate \<or> dateTo = Some InvalidDate)
   \<and> (getStatementByClient s tz clientId dateFrom dateTo = Inl ClientNotFound
      \<longleftrightarrow> (\<exists>c. clientId = Uuid c
                \<and> length (filter (\<lambda>u. up_id u = c) (user_profiles s)) \<noteq> 1)
           \<and> dateFrom \<noteq> Some InvalidDate \<and> dateTo \<noteq> Some InvalidDate)
   \<and> (\<forall>e. getStatementByClient s tz clientId dateFrom dateTo = Inl e
          \<longrightarrow> e = InvalidInput \<or> e = ClientNotFound)
   \<and> (\<forall>c f t u. clientId = Uuid c \<and> dateFrom = map_option Date f \<and> dateTo = map_option Date t
          \<and> filter (\<lambda>u. up_id u = c) (user_profiles s) = [u]
          \<longrightarrow> (\<exists>st. getStatementByClient s tz clientId dateFrom dateTo = Inr st
                 \<and> st_clientId st = c
                 \<and> map (\<lambda>r. (r_fecha r, r_facturas r, r_entregas r, r_saldoAcumulado r)) (st_rows st)
                     = map (\<lambda>e. (ae_createdAt e, ae_debit e, ae_credit e, ae_balanceAfter e))
                         (statement_entries s tz c f t)
                 \<and> (\<forall>r \<in> set (st_rows st). \<forall>i. r_paymentId r = Some i
                        \<longrightarrow> i \<in> pay_id ` set (payments s))))"
proof -
  let ?res = "getStatementByClient s tz clientId dateFrom dateTo"
  let ?bad = "(\<forall>c. clientId \<noteq> Uuid c) \<or> dateFrom = Some InvalidDate \<or> dateTo = Some InvalidDate"
  have known: "\<forall>c f t u. clientId = Uuid c \<and> dateFrom = map_option Date f \<and> dateTo = map_option Date t
          \<and> filter (\<lambda>u. up_id u = c) (user_profiles s) = [u]
          \<longrightarrow> (\<exists>st. ?res = Inr st
                 \<and> st_clientId st = c
                 \<and> map (\<lambda>r. (r_fecha r, r_facturas r, r_entregas r, r_saldoAcumulado r)) (st_rows st)
                     = map (\<lambda>e. (ae_createdAt e, ae_debit e, ae_credit e, ae_balanceAfter e))
                         (statement_entries s tz c f t)
                 \<and> (\<forall>r \<in> set (st_rows st). \<forall>i. r_paymentId r = Some i
                        \<longrightarrow> i \<in> pay_id ` set (payments s)))"
    using getStatementByClient_known by blast
  show ?thesis
  proof (cases ?bad)
    case True
    from getStatementByClient_invalid[OF True] have res: "?res = Inl InvalidInput" .
    have 1: "?res = Inl InvalidInput \<longleftrightarrow> ?bad" using True res by simp
    have 2: "?res = Inl ClientNotFound
      \<longleftrightarrow> (\<exists>c. clientId = Uuid c
                \<and> length (filter (\<lambda>u. up_id u = c) (user_profiles s)) \<noteq> 1)
           \<and> dateFrom \<noteq> Some InvalidDate \<and> dateTo \<noteq> Some InvalidDate"
      using True res by auto
    have 3: "\<forall>e. ?res = Inl e \<longrightarrow> e = InvalidInput \<or> e = ClientNotFound"
      using res by simp
    show ?thesis using 1 2 3 known by (intro conjI)
  next
    case False
    then obtain c where c: "clientId = Uuid c" by auto
    from False js_date_cases[of dateFrom] obtain f where f: "dateFrom = map_option Date f" by auto
    from False js_date_cases[of dateTo] obtain t where t: "dateTo = map_option Date t" by auto
    show ?thesis
    proof (cases "length (filter (\<lambda>u. up_id u = c) (user_profiles s)) = 1")
      case one: True
      then obtain u where u: "filter (\<lambda>u. up_id u = c) (user_profiles s) = [u]"
        by (cases "filter (\<lambda>u. up_id u = c) (user_profiles s)") auto
      from getStatementByClient_known[OF u, of tz f t] obtain st where
        res: "?res = Inr st" unfolding c f t by blast
      have 1: "?res = Inl InvalidInput \<longleftrightarrow> ?bad" using False res by simp
      have 2: "?res = Inl ClientNotFound
        \<longleftrightarrow> (\<exists>c. clientId = Uuid c
                  \<and> length (filter (\<lambda>u. up_id u = c) (user_profiles s)) \<noteq> 1)
             \<and> dateFrom \<noteq> Some InvalidDate \<and> dateTo \<noteq> Some InvalidDate"
        using res one c by simp
      have 3: "\<forall>e. ?res = Inl e \<longrightarrow> e = InvalidInput \<or> e = ClientNotFound"
        using res by simp
      show ?thesis using 1 2 3 known by (intro conjI)
    next
      case none: False
      from getStatementByClient_unknown[OF none, of tz f t]
      have res: "?res = Inl ClientNotFound" unfolding c f t .
      have 1: "?res = Inl InvalidInput \<longleftrightarrow> ?bad" using False res by simp
      have 2: "?res = Inl ClientNotFound
        \<longleftrightarrow> (\<exists>c. clientId = Uuid c
                  \<and> length (filter (\<lambda>u. up_id u = c) (user_profiles s)) \<noteq> 1)
             \<and> dateFrom \<noteq> Some InvalidDate \<and> dateTo \<noteq> Some InvalidDate"
        using res none c False by simp
      have 3: "\<forall>e. ?res = Inl e \<longrightarrow> e = InvalidInput \<or> e = ClientNotFound"
        using res by simp
      show ?thesis using 1 2 3 known by (intro conjI)
    qed
  qed
qed

theorem getStatementByClient_failures_witness:
  "(\<exists>st. getStatementByClient ambiguous_example 0 (Uuid 1) None None = Inr st
          \<and> st_clientId st = 1
          \<and> map r_fecha (st_rows st) = [1000, 1001, 3000]
          \<and> map r_paymentId (st_rows st) = [Some 200, None, Some 200])
   \<and> getStatementByClient ambiguous_example 0 (Uuid 2) None None = Inl ClientNotFound
   \<and> getStatementByClient ambiguous_example 0 (NotUuid ''1'') None None = Inl InvalidInput
   \<and> getStatementByClient ambiguous_example 0 (Uuid 1) (Some InvalidDate) None = Inl InvalidInput"
proof -
  let ?u = "\<lparr>up_id = 1, up_name = Some ''Ana'', up_email = None\<rparr>"
  have 1: "filter (\<lambda>u. up_id u = 1) (user_profiles ambiguous_example) = [?u]"
    by (simp add: ambiguous_example_def)
  have 2: "length (filter (\<lambda>u. up_id u = 2) (user_profiles ambiguous_example)) \<noteq> 1"
    by (simp add: ambiguous_example_def)
  have run: "case getStatementByClient ambiguous_example 0 (Uuid 1) None None of
               Inl e \<Rightarrow> False
             | Inr st \<Rightarrow> map r_fecha (st_rows st) = [1000, 1001, 3000]
                  \<and> map r_paymentId (st_rows st) = [Some 200, None, Some 200]"
    by code_simp
  note thm1 = getStatementByClient_failures[of ambiguous_example 0 "Uuid 1" None None]
  from thm1 have "\<forall>c f t u. Uuid 1 = Uuid c \<and> None = map_option Date f \<and> None = map_option Date t
          \<and> filter (\<lambda>u. up_id u = c) (user_profiles ambiguous_example) = [u]
          \<longrightarrow> (\<exists>st. getStatementByClient ambiguous_example 0 (Uuid 1) None None = Inr st
                 \<and> st_clientId st = c)"
    by blast
  then have "Uuid 1 = Uuid 1 \<and> None = map_option Date None \<and> None = map_option Date None
          \<and> filter (\<lambda>u. up_id u = 1) (user_profiles ambiguous_example) = [?u]
          \<longrightarrow> (\<exists>st. getStatementByClient ambiguous_example 0 (Uuid 1) None None = Inr st
                 \<and> st_clientId st = 1)"
    by blast
  with 1 obtain st where res: "getStatementByClient ambiguous_example 0 (Uuid 1) None None = Inr st"
    and cid: "st_clientId st = 1"
    by auto
  from run have rows: "map r_fecha (st_rows st) = [1000, 1001, 3000]"
    "map r_paymentId (st_rows st) = [Some 200, None, Some 200]"
    unfolding res by simp_all
  have ex: "\<exists>st. getStatementByClient ambiguous_example 0 (Uuid 1) None None = Inr st
          \<and> st_clientId st = 1
          \<and> map r_fecha (st_rows st) = [1000, 1001, 3000]
          \<and> map r_paymentId (st_rows st) = [Some 200, None, Some 200]"
    using res cid rows by (intro exI[of _ st] conjI)
  from getStatementByClient_failures[of ambiguous_example 0 "Uuid 2" None None] 2
  have nf: "getStatementByClient ambiguous_example 0 (Uuid 2) None None = Inl ClientNotFound"
    by auto
  from getStatementByClient_failures[of ambiguous_example 0 "NotUuid ''1''" None None]
  have bad: "getStatementByClient ambiguous_example 0 (NotUuid ''1'') None None = Inl InvalidInput"
    by auto
  from getStatementByClient_failures[of ambiguous_example 0 "Uuid 1" "Some InvalidDate" None]
  have bad2: "getStatementByClient ambiguous_example 0 (Uuid 1) (Some InvalidDate) None
                = Inl InvalidInput"
    by auto
  show ?thesis using ex nf bad bad2 by (intro conjI)
qed

section \<open>The status invariant\<close>

text \<open>
  C8. The invariant fails on a store the core operations reach. After Scenario 1 and a
  payment of 256.03 every invoice's status agrees with its payments. A second payment,
  of 2493.97, is allocated in full to the invoice of 2750.00, whose payments then add up
  to 2750.00, and \<open>recordPayment\<close> leaves the invoice PENDING: it takes the outstanding
  amount to be the number 2750 - 256.03, which exceeds the number 2493.97. The PATCH
  handler decides the status from the sum of the payments; asked to keep the amount of
  2750.00 on the same store, it turns the invoice to PAID.
\<close>

theorem recordPayment_breaks_status_invariant:
  "case createInvoiceFromOrder scenario_db (scenario_env 1) 10 of
     Inl e \<Rightarrow> False
   | Inr (s1, invoice) \<Rightarrow>
       list_all (status_ok s1) (invoices s1)
       \<and> (case recordPayment s1 (scenario_env 2) 1 25603 None None of
            Inl e \<Rightarrow> False
          | Inr (s2, created) \<Rightarrow>
              list_all (status_ok s2) (invoices s2)
              \<and> (case recordPayment s2 (scenario_env 3) 1 249397 None None of
                   Inl e \<Rightarrow> False
                 | Inr (s3, created') \<Rightarrow>
                     map (\<lambda>i. (inv_id i, inv_amount i, inv_status i)) (invoices s3)
                       = [(100, pesos 2750, PENDING)]
                     \<and> map (\<lambda>p. (pay_invoiceId p, pay_amount p)) (payments s3)
                         = [(100, 25603), (100, 249397)]
                     \<and> paid_total s3 100 = pesos 2750
                     \<and> \<not> list_all (status_ok s3) (invoices s3)
                     \<and> (case editInvoiceAmount s3 100 (pesos 2750) of
                           Inl e \<Rightarrow> False
                         | Inr s4 \<Rightarrow>
                             map inv_status (invoices s4) = [PAID]
                             \<and> list_all (status_ok s4) (invoices s4))))"
  by code_simp

end
